theory Spec2Isabelle
  imports Complex_Main "HOL-Library.Multiset"
begin

section \<open>Syntax trees\<close>

text \<open>
  The analyzer never builds syntax trees itself: \<^verbatim>\<open>ast.parse\<close> of the Python
  library does. A tree is modelled the way \<^verbatim>\<open>ast.walk\<close>,
  \<^verbatim>\<open>isinstance\<close> and the attribute reads of the analyzer see it:
  every node has a class (\<open>kind\<close>), the attributes the analyzer reads, an object
  identity, and its child nodes in the order of \<^verbatim>\<open>ast.iter_child_nodes\<close>,
  each tagged with the attribute of the parent it hangs on.
\<close>

text \<open>
  What the analyzer reads of a function definition: \<^verbatim>\<open>node.name\<close>,
  \<^verbatim>\<open>[arg.arg for arg in node.args.args]\<close>, \<^verbatim>\<open>len(node.args.defaults)\<close>
  and \<^verbatim>\<open>ast.get_docstring(node)\<close> (a library function: \<open>None\<close> when the first
  statement is no string literal, the cleaned text otherwise).
\<close>

record fdef =
  fd_name :: string
  fd_args :: "string list"
  fd_defaults :: nat
  fd_docstring :: "string option"

record cdef =
  cd_name :: string
  cd_docstring :: "string option"

datatype kind =
    Module
  | FunctionDef fdef
  | AsyncFunctionDef fdef
  | ClassDef cdef
  | If
  | For
  | While
  | Try
  | ExceptHandler
  | ListComp
  | DictComp
  | SetComp
  | Import "string list"             \<comment> \<open>\<^verbatim>\<open>[alias.name for alias in node.names]\<close>\<close>
  | ImportFrom "string option" nat   \<comment> \<open>\<^verbatim>\<open>node.module\<close>, \<^verbatim>\<open>node.level\<close>\<close>
  | Return
  | Raise
  | Break
  | Continue
  | Name string                      \<comment> \<open>\<^verbatim>\<open>node.id\<close>\<close>
  | Other string bool                \<comment> \<open>any other class: its name, and whether it has \<^verbatim>\<open>lineno\<close>\<close>

text \<open>The attribute of the parent that holds a child.\<close>

datatype field = Body | Bases | Decorator_list | Other_field

datatype node =
  Node (kind: kind) (lineno: nat) (addr: nat) (children: "(field \<times> node) list")

text \<open>
  \<^verbatim>\<open>hasattr(n, 'lineno')\<close>: the position attributes belong to the statement,
  expression, handler, argument, keyword and alias classes; the class decides.
  Where it is false the \<open>lineno\<close> of the model is never read.
\<close>

fun has_lineno :: "kind \<Rightarrow> bool" where
  "has_lineno Module = False"
| "has_lineno (Other c b) = b"
| "has_lineno _ = True"

fun class_name :: "kind \<Rightarrow> string" where
  "class_name Module = ''Module''"
| "class_name (FunctionDef d) = ''FunctionDef''"
| "class_name (AsyncFunctionDef d) = ''AsyncFunctionDef''"
| "class_name (ClassDef d) = ''ClassDef''"
| "class_name If = ''If''"
| "class_name For = ''For''"
| "class_name While = ''While''"
| "class_name Try = ''Try''"
| "class_name ExceptHandler = ''ExceptHandler''"
| "class_name ListComp = ''ListComp''"
| "class_name DictComp = ''DictComp''"
| "class_name SetComp = ''SetComp''"
| "class_name (Import ns) = ''Import''"
| "class_name (ImportFrom m l) = ''ImportFrom''"
| "class_name Return = ''Return''"
| "class_name Raise = ''Raise''"
| "class_name Break = ''Break''"
| "class_name Continue = ''Continue''"
| "class_name (Name i) = ''Name''"
| "class_name (Other c b) = c"

definition iter_child_nodes :: "node \<Rightarrow> node list" where
  "iter_child_nodes n = map snd (children n)"

text \<open>\<^verbatim>\<open>node.body\<close>, \<^verbatim>\<open>node.bases\<close>, \<^verbatim>\<open>node.decorator_list\<close>.\<close>

definition attr_nodes :: "field \<Rightarrow> node \<Rightarrow> node list" where
  "attr_nodes f n = map snd (filter (\<lambda>fc. fst fc = f) (children n))"

text \<open>The number of nodes of a tree, the measure of the traversals.\<close>

fun nsize :: "node \<Rightarrow> nat" where
  "nsize (Node k l a cs) = Suc (sum_list (map (\<lambda>fc. nsize (snd fc)) cs))"

text \<open>
  \<^verbatim>\<open>ast.walk\<close>: a queue that starts with the node; the front node is taken,
  its children are appended to the queue, and the node is yielded
  (breadth first).
\<close>

function walk_queue :: "node list \<Rightarrow> node list" where
  "walk_queue [] = []"
| "walk_queue (n # todo) = n # walk_queue (todo @ iter_child_nodes n)"
  by pat_completeness auto
termination
proof (relation "measure (\<lambda>q. sum_list (map nsize q))")
  show "wf (measure (\<lambda>q. sum_list (map nsize q)))" by simp
next
  fix n :: node and todo :: "node list"
  have "sum_list (map nsize (iter_child_nodes n)) < nsize n"
    by (cases n) (simp add: iter_child_nodes_def comp_def)
  then show "(todo @ iter_child_nodes n, n # todo) \<in> measure (\<lambda>q. sum_list (map nsize q))"
    by simp
qed

definition walk :: "node \<Rightarrow> node list" where
  "walk n = walk_queue [n]"

text \<open>
  The nodes of a subtree, by structural recursion (the node, then the subtrees of
  its children): what "anywhere in its subtree" means.
\<close>

fun subtree :: "node \<Rightarrow> node list" where
  "subtree (Node k l a cs) = Node k l a cs # concat (map (\<lambda>fc. subtree (snd fc)) cs)"

section \<open>Complexity metrics\<close>

text \<open>
  The metrics are a \<^verbatim>\<open>defaultdict(int)\<close>, returned as a plain dict: a key is
  present once it has been read or written. Reading a key of the defaultdict gives 0
  when it is absent (and inserts it); the readers of the returned dict use
  \<^verbatim>\<open>complexity.get(key, 0)\<close>.
\<close>

datatype metric =
  Cyclomatic | Try_blocks | Except_blocks | Functions | Max_function_complexity
  | Classes | Comprehensions

type_synonym complexity = "metric \<rightharpoonup> nat"

definition dict_get :: "complexity \<Rightarrow> metric \<Rightarrow> nat \<Rightarrow> nat" where
  "dict_get c k d = (case c k of None \<Rightarrow> d | Some v \<Rightarrow> v)"

text \<open>\<^verbatim>\<open>complexity[k] += 1\<close> on the defaultdict.\<close>

definition incr :: "metric \<Rightarrow> complexity \<Rightarrow> complexity" where
  "incr k c = c(k \<mapsto> dict_get c k 0 + 1)"

text \<open>\<^verbatim>\<open>isinstance(n, (ast.If, ast.While, ast.For))\<close>\<close>

fun is_branch :: "kind \<Rightarrow> bool" where
  "is_branch If = True"
| "is_branch While = True"
| "is_branch For = True"
| "is_branch _ = False"

fun is_FunctionDef :: "kind \<Rightarrow> bool" where
  "is_FunctionDef (FunctionDef d) = True"
| "is_FunctionDef _ = False"

fun is_AsyncFunctionDef :: "kind \<Rightarrow> bool" where
  "is_AsyncFunctionDef (AsyncFunctionDef d) = True"
| "is_AsyncFunctionDef _ = False"

fun is_ClassDef :: "kind \<Rightarrow> bool" where
  "is_ClassDef (ClassDef d) = True"
| "is_ClassDef _ = False"

fun is_comprehension :: "kind \<Rightarrow> bool" where
  "is_comprehension ListComp = True"
| "is_comprehension DictComp = True"
| "is_comprehension SetComp = True"
| "is_comprehension _ = False"

text \<open>
  \<^verbatim>\<open>sum(1 for n in ast.walk(node) if isinstance(n, (ast.If, ast.While, ast.For)))\<close>
\<close>

definition func_complexity :: "node \<Rightarrow> nat" where
  "func_complexity node = length (filter (\<lambda>n. is_branch (kind n)) (walk node))"

text \<open>The body of the loop of \<^verbatim>\<open>_calculate_complexity\<close>, one node.\<close>

definition complexity_step :: "node \<Rightarrow> complexity \<Rightarrow> complexity" where
  "complexity_step node c =
     (if is_branch (kind node) then incr Cyclomatic c
      else if kind node = Try then incr Try_blocks c
      else if kind node = ExceptHandler then incr Except_blocks c
      else if is_FunctionDef (kind node) \<or> is_AsyncFunctionDef (kind node) then
        (let c1 = incr Functions c;
             c2 = c1(Max_function_complexity \<mapsto> dict_get c1 Max_function_complexity 0)
         in c2(Max_function_complexity \<mapsto>
                 max (dict_get c2 Max_function_complexity 0) (func_complexity node)))
      else if is_ClassDef (kind node) then incr Classes c
      else if is_comprehension (kind node) then incr Comprehensions c
      else c)"

definition calculate_complexity :: "node \<Rightarrow> complexity" where
  "calculate_complexity tree = fold complexity_step (walk tree) Map.empty"

text \<open>
  The metrics as the specification words them: counts of node kinds over the whole
  tree, and the greatest local complexity of a function definition, where the local
  complexity of a function counts the branch nodes anywhere in its subtree.
\<close>

definition count_nodes :: "(kind \<Rightarrow> bool) \<Rightarrow> node \<Rightarrow> nat" where
  "count_nodes P t = length (filter (\<lambda>n. P (kind n)) (subtree t))"

definition local_complexity :: "node \<Rightarrow> nat" where
  "local_complexity f = count_nodes is_branch f"

definition is_function_def :: "kind \<Rightarrow> bool" where
  "is_function_def k = (is_FunctionDef k \<or> is_AsyncFunctionDef k)"

definition max_local_complexity :: "node \<Rightarrow> nat" where
  "max_local_complexity t =
     Max (set (0 # map local_complexity
                     (filter (\<lambda>f. is_function_def (kind f)) (subtree t))))"

section \<open>Text\<close>

text \<open>
  A Python \<^verbatim>\<open>str\<close> is modelled as a \<open>string\<close>: the characters are the code
  points below 256. The character classes are those of \<^verbatim>\<open>str.isspace\<close>,
  of the \<^verbatim>\<open>re\<close> module on \<^verbatim>\<open>str\<close> patterns and of \<^verbatim>\<open>str.splitlines\<close>
  on that range.
\<close>

definition ord :: "char \<Rightarrow> nat" where
  "ord c = of_char c"

definition newline :: char where
  "newline = CHR 0x0A"

definition carriage_return :: char where
  "carriage_return = CHR 0x0D"

definition is_space :: "char \<Rightarrow> bool" where
  "is_space c = (let n = ord c in (9 \<le> n \<and> n \<le> 13) \<or> (28 \<le> n \<and> n \<le> 32) \<or> n = 133 \<or> n = 160)"

definition is_digit :: "char \<Rightarrow> bool" where
  "is_digit c = (let n = ord c in 48 \<le> n \<and> n \<le> 57)"

definition is_word :: "char \<Rightarrow> bool" where
  "is_word c = (let n = ord c in
     (48 \<le> n \<and> n \<le> 57) \<or> (65 \<le> n \<and> n \<le> 90) \<or> n = 95 \<or> (97 \<le> n \<and> n \<le> 122)
     \<or> n = 170 \<or> n = 178 \<or> n = 179 \<or> n = 181 \<or> n = 185 \<or> n = 186
     \<or> (188 \<le> n \<and> n \<le> 190) \<or> (192 \<le> n \<and> n \<le> 214) \<or> (216 \<le> n \<and> n \<le> 246)
     \<or> 248 \<le> n)"

definition is_linebreak :: "char \<Rightarrow> bool" where
  "is_linebreak c = (let n = ord c in (10 \<le> n \<and> n \<le> 13) \<or> (28 \<le> n \<and> n \<le> 30) \<or> n = 133)"

text \<open>
  \<^verbatim>\<open>str.splitlines()\<close>: the text is cut at every line boundary, a carriage return
  directly followed by a line feed being one boundary; the boundaries are dropped,
  and a text that ends with a boundary has no empty last line. \<open>cur\<close> is the line
  being read.
\<close>

fun splitlines_from :: "string \<Rightarrow> string \<Rightarrow> string list" where
  "splitlines_from cur [] = (if cur = [] then [] else [cur])"
| "splitlines_from cur (c # cs) =
     (if c = carriage_return then
        (case cs of
           [] \<Rightarrow> [cur]
         | d # ds \<Rightarrow> if d = newline then cur # splitlines_from [] ds
                    else cur # splitlines_from [] (d # ds))
      else if is_linebreak c then cur # splitlines_from [] cs
      else splitlines_from (cur @ [c]) cs)"

definition splitlines :: "string \<Rightarrow> string list" where
  "splitlines content = splitlines_from [] content"

text \<open>\<^verbatim>\<open>str.strip()\<close>\<close>

definition strip :: "string \<Rightarrow> string" where
  "strip s = rev (dropWhile is_space (rev (dropWhile is_space s)))"

text \<open>\<^verbatim>\<open>sep.join(xs)\<close>\<close>

fun join :: "string \<Rightarrow> string list \<Rightarrow> string" where
  "join sep [] = []"
| "join sep [x] = x"
| "join sep (x # y # ys) = x @ sep @ join sep (y # ys)"

text \<open>\<^verbatim>\<open>name.split('.')[0]\<close>: the text before the first dot, all of it when there is none.\<close>

definition first_segment :: "string \<Rightarrow> string" where
  "first_segment name = takeWhile (\<lambda>c. c \<noteq> CHR ''.'') name"

text \<open>
  \<^verbatim>\<open>str(node)\<close> of a syntax-tree node: the classes of \<^verbatim>\<open>ast\<close> define no
  \<^verbatim>\<open>__str__\<close> or \<^verbatim>\<open>__repr__\<close> (CPython 3.9 to 3.13), so the text is the one of
  \<^verbatim>\<open>object.__repr__\<close>, which prints the class and the address of the object.
\<close>

definition hex_digit :: "nat \<Rightarrow> char" where
  "hex_digit d = ''0123456789abcdef'' ! d"

fun hex :: "nat \<Rightarrow> string" where
  "hex n = (if n < 16 then [hex_digit n] else hex (n div 16) @ [hex_digit (n mod 16)])"

definition str_node :: "node \<Rightarrow> string" where
  "str_node n = ''<ast.'' @ class_name (kind n) @ '' object at 0x'' @ hex (addr n) @ ''>''"

section \<open>Pattern records\<close>

record function_pattern =
  fp_name :: string
  fp_signature :: string
  fp_line_start :: nat
  fp_length :: nat
  fp_args_count :: nat
  fp_returns :: bool
  fp_docstring :: bool
  fp_complexity :: nat

record class_pattern =
  cp_name :: string
  cp_line_start :: nat
  cp_methods_count :: nat
  cp_bases :: "string list"
  cp_docstring :: bool
  cp_has_init :: bool

record loop_pattern =
  lp_loop_type :: string
  lp_line_start :: nat
  lp_nested_loops :: nat
  lp_has_break :: bool
  lp_has_continue :: bool

text \<open>The \<^verbatim>\<open>'type'\<close> key of a pattern dict selects the variant.\<close>

datatype pattern =
    FunctionPattern function_pattern
  | ClassPattern class_pattern
  | LoopPattern loop_pattern

text \<open>
  \<^verbatim>\<open>_analyze_function_pattern(node, content)\<close>, \<open>d\<close> being the attributes of the
  function definition \<open>node\<close>. The source splits \<open>content\<close> into lines and never
  reads them.
\<close>

definition analyze_function_pattern :: "fdef \<Rightarrow> node \<Rightarrow> string \<Rightarrow> function_pattern" where
  "analyze_function_pattern d node content =
     (let args = fd_args d;
          signature = fd_name d @ ''('' @ join '', '' args @ '')'';
          func_lines = map lineno (filter (\<lambda>n. has_lineno (kind n)) (walk node));
          func_length = (if func_lines \<noteq> [] then Max (set func_lines) - Min (set func_lines) + 1
                         else 1)
      in \<lparr> fp_name = fd_name d,
           fp_signature = signature,
           fp_line_start = lineno node,
           fp_length = func_length,
           fp_args_count = length args,
           fp_returns = (filter (\<lambda>n. kind n = Return) (walk node) \<noteq> []),
           fp_docstring = (fd_docstring d \<noteq> None),
           fp_complexity = length (filter (\<lambda>n. is_branch (kind n)) (walk node)) \<rparr>)"

text \<open>\<^verbatim>\<open>base.id if isinstance(base, ast.Name) else str(base)\<close>\<close>

definition name_or_str :: "node \<Rightarrow> string" where
  "name_or_str e = (case kind e of Name i \<Rightarrow> i | _ \<Rightarrow> str_node e)"

text \<open>\<^verbatim>\<open>[n for n in node.body if isinstance(n, ast.FunctionDef)]\<close>\<close>

definition methods_of :: "node \<Rightarrow> node list" where
  "methods_of node = filter (\<lambda>n. is_FunctionDef (kind n)) (attr_nodes Body node)"

text \<open>\<^verbatim>\<open>method.name\<close> of a function definition.\<close>

fun def_name :: "kind \<Rightarrow> string" where
  "def_name (FunctionDef d) = fd_name d"
| "def_name (AsyncFunctionDef d) = fd_name d"
| "def_name (ClassDef d) = cd_name d"
| "def_name _ = []"

definition analyze_class_pattern :: "cdef \<Rightarrow> node \<Rightarrow> string \<Rightarrow> class_pattern" where
  "analyze_class_pattern d node content =
     (let methods = methods_of node
      in \<lparr> cp_name = cd_name d,
           cp_line_start = lineno node,
           cp_methods_count = length methods,
           cp_bases = map name_or_str (attr_nodes Bases node),
           cp_docstring = (cd_docstring d \<noteq> None),
           cp_has_init = list_ex (\<lambda>method. def_name (kind method) = ''__init__'') methods \<rparr>)"

definition is_loop :: "kind \<Rightarrow> bool" where
  "is_loop k = (k = For \<or> k = While)"

text \<open>
  \<^verbatim>\<open>n != node\<close> compares object identities; among the nodes that the walk of
  \<open>node\<close> yields only \<open>node\<close> itself equals \<open>node\<close>, a proper descendant being a
  smaller tree.
\<close>

definition analyze_loop_pattern :: "node \<Rightarrow> string \<Rightarrow> loop_pattern" where
  "analyze_loop_pattern node content =
     \<lparr> lp_loop_type = (if kind node = For then ''for'' else ''while''),
       lp_line_start = lineno node,
       lp_nested_loops = length (filter (\<lambda>n. is_loop (kind n) \<and> n \<noteq> node) (walk node)),
       lp_has_break = (filter (\<lambda>n. kind n = Break) (walk node) \<noteq> []),
       lp_has_continue = (filter (\<lambda>n. kind n = Continue) (walk node) \<noteq> []) \<rparr>"

text \<open>The body of the loop of \<^verbatim>\<open>_extract_patterns\<close>, one node.\<close>

definition patterns_step :: "string \<Rightarrow> node \<Rightarrow> pattern list \<Rightarrow> pattern list" where
  "patterns_step content node patterns =
     (case kind node of
        FunctionDef d \<Rightarrow> patterns @ [FunctionPattern (analyze_function_pattern d node content)]
      | ClassDef d \<Rightarrow> patterns @ [ClassPattern (analyze_class_pattern d node content)]
      | For \<Rightarrow> patterns @ [LoopPattern (analyze_loop_pattern node content)]
      | While \<Rightarrow> patterns @ [LoopPattern (analyze_loop_pattern node content)]
      | _ \<Rightarrow> patterns)"

definition extract_patterns :: "node \<Rightarrow> string \<Rightarrow> pattern list" where
  "extract_patterns tree content = fold (patterns_step content) (walk tree) []"

section \<open>Function and class details\<close>

record func_info =
  fi_name :: string
  fi_line_number :: nat
  fi_args :: "string list"
  fi_defaults :: nat
  fi_returns_count :: nat
  fi_raises_count :: nat
  fi_docstring :: "string option"
  fi_is_async :: bool
  fi_decorators :: "string list"

record class_info =
  ci_name :: string
  ci_line_number :: nat
  ci_methods :: "string list"
  ci_base_classes :: "string list"
  ci_docstring :: "string option"
  ci_decorators :: "string list"

definition functions_step :: "node \<Rightarrow> func_info list \<Rightarrow> func_info list" where
  "functions_step node functions =
     (case kind node of
        FunctionDef d \<Rightarrow>
          functions @
          [\<lparr> fi_name = fd_name d,
             fi_line_number = lineno node,
             fi_args = fd_args d,
             fi_defaults = fd_defaults d,
             fi_returns_count = length (filter (\<lambda>n. kind n = Return) (walk node)),
             fi_raises_count = length (filter (\<lambda>n. kind n = Raise) (walk node)),
             fi_docstring = fd_docstring d,
             fi_is_async = is_AsyncFunctionDef (kind node),
             fi_decorators = map name_or_str (attr_nodes Decorator_list node) \<rparr>]
      | _ \<Rightarrow> functions)"

definition analyze_functions :: "node \<Rightarrow> func_info list" where
  "analyze_functions tree = fold functions_step (walk tree) []"

definition classes_step :: "node \<Rightarrow> class_info list \<Rightarrow> class_info list" where
  "classes_step node classes =
     (case kind node of
        ClassDef d \<Rightarrow>
          (let methods = methods_of node
           in classes @
              [\<lparr> ci_name = cd_name d,
                 ci_line_number = lineno node,
                 ci_methods = map (\<lambda>method. def_name (kind method)) methods,
                 ci_base_classes = map name_or_str (attr_nodes Bases node),
                 ci_docstring = cd_docstring d,
                 ci_decorators = map name_or_str (attr_nodes Decorator_list node) \<rparr>])
      | _ \<Rightarrow> classes)"

definition analyze_classes :: "node \<Rightarrow> class_info list" where
  "analyze_classes tree = fold classes_step (walk tree) []"

section \<open>Imports\<close>

record import_lists =
  standard :: "string list"
  third_party :: "string list"
  relative :: "string list"

definition stdlib_modules :: "string set" where
  "stdlib_modules =
     {''os'', ''sys'', ''json'', ''time'', ''datetime'', ''collections'', ''itertools'',
      ''functools'', ''operator'', ''pathlib'', ''typing'', ''dataclasses'', ''enum'',
      ''logging'', ''unittest'', ''sqlite3'', ''pickle'', ''csv'', ''xml'', ''html'',
      ''urllib'', ''http'', ''email'', ''calendar'', ''locale'', ''platform''}"

text \<open>The truth value of \<^verbatim>\<open>node.module\<close>: false for \<open>None\<close> and for the empty text.\<close>

definition truthy :: "string option \<Rightarrow> bool" where
  "truthy m = (case m of None \<Rightarrow> False | Some s \<Rightarrow> s \<noteq> [])"

text \<open>\<^verbatim>\<open>node.module or ''\<close>\<close>

definition or_empty :: "string option \<Rightarrow> string" where
  "or_empty m = (case m of None \<Rightarrow> [] | Some s \<Rightarrow> s)"

text \<open>The inner loop over \<^verbatim>\<open>node.names\<close> of a plain import, one alias.\<close>

definition alias_step :: "string \<Rightarrow> import_lists \<Rightarrow> import_lists" where
  "alias_step alias_name im =
     (let module = first_segment alias_name
      in if module \<in> stdlib_modules then im\<lparr>standard := standard im @ [alias_name]\<rparr>
         else im\<lparr>third_party := third_party im @ [alias_name]\<rparr>)"

definition imports_step :: "node \<Rightarrow> import_lists \<Rightarrow> import_lists" where
  "imports_step node im =
     (case kind node of
        Import names \<Rightarrow> fold alias_step names im
      | ImportFrom node_module level \<Rightarrow>
          if level > 0 then
            im\<lparr>relative := relative im @
                 [if truthy node_module then ''.'' @ or_empty node_module else ''.'']\<rparr>
          else
            (let module = (if truthy node_module then first_segment (or_empty node_module) else [])
             in if module \<in> stdlib_modules
                then im\<lparr>standard := standard im @ [or_empty node_module]\<rparr>
                else im\<lparr>third_party := third_party im @ [or_empty node_module]\<rparr>)
      | _ \<Rightarrow> im)"

definition analyze_imports :: "node \<Rightarrow> import_lists" where
  "analyze_imports tree =
     fold imports_step (walk tree) \<lparr> standard = [], third_party = [], relative = [] \<rparr>"

section \<open>Regular expressions\<close>

text \<open>
  The lexical rules are patterns of the \<^verbatim>\<open>re\<close> module, searched without flags.
  The patterns are modelled as terms and \<^verbatim>\<open>re.search\<close> as a backtracking
  matcher that lists, in the order of preference of the engine, every way a pattern
  matches from a position. A matcher state is the position reached and the groups
  captured so far, the latest first.
\<close>

datatype cclass =
    Lit char   \<comment> \<open>the character itself\<close>
  | Dot        \<comment> \<open>\<^verbatim>\<open>.\<close>: any character but the newline\<close>
  | Space      \<comment> \<open>\<^verbatim>\<open>\s\<close>\<close>
  | Word       \<comment> \<open>\<^verbatim>\<open>\w\<close>\<close>
  | Digit      \<comment> \<open>\<^verbatim>\<open>\d\<close>\<close>

fun in_class :: "cclass \<Rightarrow> char \<Rightarrow> bool" where
  "in_class (Lit a) c = (c = a)"
| "in_class Dot c = (c \<noteq> newline)"
| "in_class Space c = is_space c"
| "in_class Word c = is_word c"
| "in_class Digit c = is_digit c"

datatype regex =
    Empty
  | Atom cclass                \<comment> \<open>one character of the class\<close>
  | OneOf "cclass list"        \<comment> \<open>\<^verbatim>\<open>[...]\<close>\<close>
  | NoneOf "cclass list"       \<comment> \<open>\<^verbatim>\<open>[^...]\<close>\<close>
  | Seq regex regex
  | Star regex                 \<comment> \<open>\<^verbatim>\<open>r*\<close>, greedy\<close>
  | LazyStar regex             \<comment> \<open>\<^verbatim>\<open>r*?\<close>\<close>
  | Group nat regex            \<comment> \<open>capturing group with its number\<close>
  | Backref nat                \<comment> \<open>\<^verbatim>\<open>\1\<close>\<close>
  | Bol                        \<comment> \<open>\<^verbatim>\<open>^\<close>\<close>
  | Eol                        \<comment> \<open>\<^verbatim>\<open>$\<close>\<close>
  | WordBoundary               \<comment> \<open>\<^verbatim>\<open>\b\<close>\<close>
  | NotAhead regex             \<comment> \<open>\<^verbatim>\<open>(?!r)\<close>\<close>
  | NotBehind "cclass list"    \<comment> \<open>\<^verbatim>\<open>(?<![...])\<close>, one character back\<close>

type_synonym mstate = "nat \<times> (nat \<times> string) list"

text \<open>
  Repetition: each round must consume a character, so a round starts at most
  \<open>length s - position\<close> times; that is the fuel given below. The greedy star
  prefers another round, the lazy star prefers to stop.
\<close>

fun star_greedy :: "(mstate \<Rightarrow> mstate list) \<Rightarrow> nat \<Rightarrow> mstate \<Rightarrow> mstate list" where
  "star_greedy step 0 st = [st]"
| "star_greedy step (Suc fuel) st =
     concat (map (star_greedy step fuel) (filter (\<lambda>st'. fst st < fst st') (step st))) @ [st]"

fun star_lazy :: "(mstate \<Rightarrow> mstate list) \<Rightarrow> nat \<Rightarrow> mstate \<Rightarrow> mstate list" where
  "star_lazy step 0 st = [st]"
| "star_lazy step (Suc fuel) st =
     st # concat (map (star_lazy step fuel) (filter (\<lambda>st'. fst st < fst st') (step st)))"

definition char_at :: "(char \<Rightarrow> bool) \<Rightarrow> string \<Rightarrow> nat \<Rightarrow> bool" where
  "char_at P s i = (i < length s \<and> P (s ! i))"

definition word_before :: "string \<Rightarrow> nat \<Rightarrow> bool" where
  "word_before s i = (0 < i \<and> char_at is_word s (i - 1))"

primrec rmatch :: "regex \<Rightarrow> string \<Rightarrow> mstate \<Rightarrow> mstate list" where
  "rmatch Empty s st = [st]"
| "rmatch (Atom a) s st =
     (if char_at (in_class a) s (fst st) then [(Suc (fst st), snd st)] else [])"
| "rmatch (OneOf as) s st =
     (if char_at (\<lambda>c. list_ex (\<lambda>a. in_class a c) as) s (fst st)
      then [(Suc (fst st), snd st)] else [])"
| "rmatch (NoneOf as) s st =
     (if char_at (\<lambda>c. \<not> list_ex (\<lambda>a. in_class a c) as) s (fst st)
      then [(Suc (fst st), snd st)] else [])"
| "rmatch (Seq a b) s st = concat (map (rmatch b s) (rmatch a s st))"
| "rmatch (Star r) s st = star_greedy (rmatch r s) (length s - fst st) st"
| "rmatch (LazyStar r) s st = star_lazy (rmatch r s) (length s - fst st) st"
| "rmatch (Group k r) s st =
     map (\<lambda>st'. (fst st', (k, take (fst st' - fst st) (drop (fst st) s)) # snd st'))
         (rmatch r s st)"
| "rmatch (Backref k) s st =
     (case map_of (snd st) k of
        None \<Rightarrow> []
      | Some g \<Rightarrow> if take (length g) (drop (fst st) s) = g
                  then [(fst st + length g, snd st)] else [])"
| "rmatch Bol s st = (if fst st = 0 then [st] else [])"
| "rmatch Eol s st =
     (if fst st = length s \<or> (Suc (fst st) = length s \<and> s ! fst st = newline)
      then [st] else [])"
| "rmatch WordBoundary s st =
     (if word_before s (fst st) \<noteq> char_at is_word s (fst st) then [st] else [])"
| "rmatch (NotAhead r) s st = (if rmatch r s st = [] then [st] else [])"
| "rmatch (NotBehind as) s st =
     (if 0 < fst st \<and> char_at (\<lambda>c. list_ex (\<lambda>a. in_class a c) as) s (fst st - 1)
      then [] else [st])"

text \<open>\<^verbatim>\<open>re.search(pattern, line)\<close> as a truth value: some position has a match.\<close>

definition re_search :: "regex \<Rightarrow> string \<Rightarrow> bool" where
  "re_search pattern line =
     list_ex (\<lambda>i. rmatch pattern line (i, []) \<noteq> []) [0..<Suc (length line)]"

text \<open>Notation of the patterns: a sequence, a literal text, \<^verbatim>\<open>r+\<close> and \<^verbatim>\<open>r{n,}\<close>.\<close>

fun Seqs :: "regex list \<Rightarrow> regex" where
  "Seqs [] = Empty"
| "Seqs [r] = r"
| "Seqs (r # rs) = Seq r (Seqs rs)"

definition Str :: "string \<Rightarrow> regex" where
  "Str s = Seqs (map (\<lambda>c. Atom (Lit c)) s)"

definition Plus :: "regex \<Rightarrow> regex" where
  "Plus r = Seq r (Star r)"

definition AtLeast :: "nat \<Rightarrow> regex \<Rightarrow> regex" where
  "AtLeast n r = Seqs (replicate n r @ [Star r])"

text \<open>
  A pattern that cannot match without reading a newline: a newline literal stands
  on every path through it.
\<close>

fun needs_newline :: "regex \<Rightarrow> bool" where
  "needs_newline (Atom a) = (a = Lit newline)"
| "needs_newline (Seq a b) = (needs_newline a \<or> needs_newline b)"
| "needs_newline (Group k r) = needs_newline r"
| "needs_newline _ = False"

section \<open>Lexical rules\<close>

datatype bug_type =
  Unused_variable | Duplicate_code | Long_line | Deep_nesting | Magic_number
  | Bare_except | Mutable_default | Global_variable

text \<open>
  \<^verbatim>\<open>unused_variable\<close>: \<^verbatim>\<open>^\s*(\w+)\s*=.*$(?!\n.*\1)\<close>
\<close>

definition unused_variable_pattern :: regex where
  "unused_variable_pattern =
     Seqs [Bol, Star (Atom Space), Group 1 (Plus (Atom Word)), Star (Atom Space),
           Atom (Lit CHR ''=''), Star (Atom Dot), Eol,
           NotAhead (Seqs [Atom (Lit newline), Star (Atom Dot), Backref 1])]"

text \<open>
  \<^verbatim>\<open>duplicate_code\<close>: \<^verbatim>\<open>(.{20,})\n(?:.*\n)*?\1\<close>
\<close>

definition duplicate_code_pattern :: regex where
  "duplicate_code_pattern =
     Seqs [Group 1 (AtLeast 20 (Atom Dot)), Atom (Lit newline),
           LazyStar (Seq (Star (Atom Dot)) (Atom (Lit newline))), Backref 1]"

text \<open>
  \<^verbatim>\<open>long_line\<close>: \<^verbatim>\<open>^.{120,}$\<close>
\<close>

definition long_line_pattern :: regex where
  "long_line_pattern = Seqs [Bol, AtLeast 120 (Atom Dot), Eol]"

text \<open>
  \<^verbatim>\<open>deep_nesting\<close>: \<^verbatim>\<open>^(\s{12,})\<close>
\<close>

definition deep_nesting_pattern :: regex where
  "deep_nesting_pattern = Seqs [Bol, Group 1 (AtLeast 12 (Atom Space))]"

text \<open>
  \<^verbatim>\<open>magic_number\<close>: \<^verbatim>\<open>\b(?<![\w.])\d{2,}\b(?![\w.])\<close>
\<close>

definition magic_number_pattern :: regex where
  "magic_number_pattern =
     Seqs [WordBoundary, NotBehind [Word, Lit CHR ''.''], AtLeast 2 (Atom Digit),
           WordBoundary, NotAhead (OneOf [Word, Lit CHR ''.''])]"

text \<open>
  \<^verbatim>\<open>bare_except\<close>: \<^verbatim>\<open>except\s*:\<close>
\<close>

definition bare_except_pattern :: regex where
  "bare_except_pattern = Seqs [Str ''except'', Star (Atom Space), Atom (Lit CHR '':'')]"

text \<open>
  \<^verbatim>\<open>mutable_default\<close>: \<^verbatim>\<open>def\s+\w+\([^)]*=\s*[\[\{]\<close>
\<close>

definition mutable_default_pattern :: regex where
  "mutable_default_pattern =
     Seqs [Str ''def'', Plus (Atom Space), Plus (Atom Word), Atom (Lit CHR ''(''),
           Star (NoneOf [Lit CHR '')'']), Atom (Lit CHR ''=''), Star (Atom Space),
           OneOf [Lit CHR ''['', Lit CHR ''{'']]"

text \<open>
  \<^verbatim>\<open>global_variable\<close>: \<^verbatim>\<open>^\s*global\s+\w+\<close>
\<close>

definition global_variable_pattern :: regex where
  "global_variable_pattern =
     Seqs [Bol, Star (Atom Space), Str ''global'', Plus (Atom Space), Plus (Atom Word)]"

text \<open>The dict \<^verbatim>\<open>self.bug_patterns\<close>, in its insertion order.\<close>

definition bug_patterns :: "(bug_type \<times> regex) list" where
  "bug_patterns =
     [(Unused_variable, unused_variable_pattern),
      (Duplicate_code, duplicate_code_pattern),
      (Long_line, long_line_pattern),
      (Deep_nesting, deep_nesting_pattern),
      (Magic_number, magic_number_pattern),
      (Bare_except, bare_except_pattern),
      (Mutable_default, mutable_default_pattern),
      (Global_variable, global_variable_pattern)]"

datatype opt_type =
  List_comprehension | String_concatenation | Inefficient_membership | Repeated_calculation

text \<open>
  \<^verbatim>\<open>list_comprehension\<close>: \<^verbatim>\<open>for\s+\w+\s+in\s+.*:\s*\n\s*.*\.append\(\<close>
\<close>

definition list_comprehension_pattern :: regex where
  "list_comprehension_pattern =
     Seqs [Str ''for'', Plus (Atom Space), Plus (Atom Word), Plus (Atom Space), Str ''in'',
           Plus (Atom Space), Star (Atom Dot), Atom (Lit CHR '':''), Star (Atom Space),
           Atom (Lit newline), Star (Atom Space), Star (Atom Dot), Str ''.append('']"

text \<open>
  \<^verbatim>\<open>string_concatenation\<close>: \<^verbatim>\<open>\w+\s*\+=\s*["\'].*["\']\<close>
\<close>

definition string_concatenation_pattern :: regex where
  "string_concatenation_pattern =
     Seqs [Plus (Atom Word), Star (Atom Space), Str ''+='', Star (Atom Space),
           OneOf [Lit (CHR 0x22), Lit (CHR 0x27)], Star (Atom Dot),
           OneOf [Lit (CHR 0x22), Lit (CHR 0x27)]]"

text \<open>
  \<^verbatim>\<open>inefficient_membership\<close>: \<^verbatim>\<open>\w+\s+in\s+\[.*\]\<close>
\<close>

definition inefficient_membership_pattern :: regex where
  "inefficient_membership_pattern =
     Seqs [Plus (Atom Word), Plus (Atom Space), Str ''in'', Plus (Atom Space),
           Atom (Lit CHR ''[''), Star (Atom Dot), Atom (Lit CHR '']'')]"

text \<open>
  \<^verbatim>\<open>repeated_calculation\<close>: \<^verbatim>\<open>(\w+\([^)]*\)).*\n.*\1\<close>
\<close>

definition repeated_calculation_pattern :: regex where
  "repeated_calculation_pattern =
     Seqs [Group 1 (Seqs [Plus (Atom Word), Atom (Lit CHR ''(''),
                          Star (NoneOf [Lit CHR '')'']), Atom (Lit CHR '')'')]),
           Star (Atom Dot), Atom (Lit newline), Star (Atom Dot), Backref 1]"

definition optimization_patterns :: "(opt_type \<times> regex) list" where
  "optimization_patterns =
     [(List_comprehension, list_comprehension_pattern),
      (String_concatenation, string_concatenation_pattern),
      (Inefficient_membership, inefficient_membership_pattern),
      (Repeated_calculation, repeated_calculation_pattern)]"

datatype severity = Low | Medium | High | Critical

fun assess_bug_severity :: "bug_type \<Rightarrow> severity" where
  "assess_bug_severity Unused_variable = Low"
| "assess_bug_severity Duplicate_code = Medium"
| "assess_bug_severity Long_line = Low"
| "assess_bug_severity Deep_nesting = Medium"
| "assess_bug_severity Magic_number = Low"
| "assess_bug_severity Bare_except = High"
| "assess_bug_severity Mutable_default = High"
| "assess_bug_severity Global_variable = Medium"

fun generate_optimization_suggestion :: "opt_type \<Rightarrow> string \<Rightarrow> string" where
  "generate_optimization_suggestion List_comprehension original_line =
     ''Consider using list comprehension for better performance''"
| "generate_optimization_suggestion String_concatenation original_line =
     ''Use f-strings or join() for string concatenation''"
| "generate_optimization_suggestion Inefficient_membership original_line =
     ''Use set for membership testing instead of list''"
| "generate_optimization_suggestion Repeated_calculation original_line =
     ''Cache the result to avoid repeated calculations''"

datatype impact = Low_impact | Medium_impact | High_impact

fun assess_optimization_impact :: "opt_type \<Rightarrow> impact" where
  "assess_optimization_impact List_comprehension = Medium_impact"
| "assess_optimization_impact String_concatenation = High_impact"
| "assess_optimization_impact Inefficient_membership = High_impact"
| "assess_optimization_impact Repeated_calculation = Medium_impact"

record bug =
  b_type :: bug_type
  b_line :: nat
  b_content :: string
  b_severity :: severity
  b_pattern :: regex

record optimization =
  o_type :: opt_type
  o_line :: nat
  o_original :: string
  o_suggestion :: string
  o_impact :: impact

text \<open>
  \<^verbatim>\<open>_detect_potential_bugs\<close>: for every line, numbered from 1, and every rule in
  the order of the dict, a match appends one record.
\<close>

definition bugs_of_line :: "nat \<times> string \<Rightarrow> bug list" where
  "bugs_of_line nl =
     concat (map (\<lambda>(bug_type, pattern).
                    if re_search pattern (snd nl)
                    then [\<lparr> b_type = bug_type, b_line = fst nl, b_content = strip (snd nl),
                            b_severity = assess_bug_severity bug_type, b_pattern = pattern \<rparr>]
                    else [])
                 bug_patterns)"

definition detect_potential_bugs :: "string \<Rightarrow> bug list" where
  "detect_potential_bugs content =
     (let lines = splitlines content
      in concat (map bugs_of_line (enumerate 1 lines)))"

definition optimizations_of_line :: "nat \<times> string \<Rightarrow> optimization list" where
  "optimizations_of_line nl =
     concat (map (\<lambda>(opt_type, pattern).
                    if re_search pattern (snd nl)
                    then [\<lparr> o_type = opt_type, o_line = fst nl, o_original = strip (snd nl),
                            o_suggestion = generate_optimization_suggestion opt_type (snd nl),
                            o_impact = assess_optimization_impact opt_type \<rparr>]
                    else [])
                 optimization_patterns)"

definition find_optimizations :: "string \<Rightarrow> optimization list" where
  "find_optimizations content =
     (let lines = splitlines content
      in concat (map optimizations_of_line (enumerate 1 lines)))"

section \<open>Quality score and file analysis\<close>

text \<open>
  An exception: its class and the text that \<^verbatim>\<open>str(e)\<close> gives. The world outside the analyzer is
  what one call sees of it: what opening and reading a path gives, what
  \<^verbatim>\<open>ast.parse\<close> gives for a text, and the clock.
\<close>

datatype exn = Exn (exn_class: string) (str_exn: string)

record env =
  open_read :: "string \<Rightarrow> exn + string"
  ast_parse :: "string \<Rightarrow> exn + node"
  time_time :: rat

text \<open>
  The result dict. A key that the dict may lack is an optional field. The score is a
  Python float; it is modelled as an exact rational number, rounding left aside
  (the penalties are whole numbers, the only fraction is the docstring ratio).
\<close>

record file_analysis =
  file_path :: string
  error :: "string option"
  lines_of_code :: "nat option"
  complexity :: "complexity option"
  patterns :: "pattern list option"
  functions' :: "func_info list option"
  classes' :: "class_info list option"
  import_lists :: "import_lists option"
  potential_bugs :: "bug list option"
  optimization_opportunities :: "optimization list option"
  code_quality_score :: "rat option"
  analyzed_at :: rat

text \<open>\<^verbatim>\<open>analysis.get(key, default)\<close>\<close>

definition get_or :: "'a option \<Rightarrow> 'a \<Rightarrow> 'a" where
  "get_or v d = (case v of None \<Rightarrow> d | Some x \<Rightarrow> x)"

text \<open>The body of the loop over the bugs of \<^verbatim>\<open>_calculate_quality_score\<close>.\<close>

definition penalty_step :: "bug \<Rightarrow> rat \<Rightarrow> rat" where
  "penalty_step bug score =
     (if b_severity bug = Critical then score - 20
      else if b_severity bug = High then score - 10
      else if b_severity bug = Medium then score - 5
      else score - 2)"

text \<open>
  \<^verbatim>\<open>_calculate_quality_score\<close>: the value of \<^verbatim>\<open>score\<close> when the return statement
  is reached, and the value returned.
\<close>

definition unclamped_score :: "file_analysis \<Rightarrow> rat" where
  "unclamped_score analysis =
     (let score = 100;
          bugs = get_or (potential_bugs analysis) [];
          score = fold penalty_step bugs score;
          metrics = get_or (complexity analysis) Map.empty;
          max_func_complexity = dict_get metrics Max_function_complexity 0;
          score = (if max_func_complexity > 10
                   then score - of_nat ((max_func_complexity - 10) * 3) else score);
          functions = get_or (functions' analysis) [];
          score = (if functions \<noteq> []
                   then (let docstring_ratio =
                               of_nat (length (filter (\<lambda>f. truthy (fi_docstring f)) functions))
                               / of_nat (length functions)
                         in score + docstring_ratio * 10)
                   else score)
      in score)"

definition calculate_quality_score :: "file_analysis \<Rightarrow> rat" where
  "calculate_quality_score analysis = max 0 (min 100 (unclamped_score analysis))"

definition error_result :: "env \<Rightarrow> string \<Rightarrow> exn \<Rightarrow> file_analysis" where
  "error_result env path e =
     \<lparr> file_path = path, error = Some (str_exn e), lines_of_code = None,
       complexity = None, patterns = None, functions' = None, classes' = None,
       import_lists = None, potential_bugs = None, optimization_opportunities = None,
       code_quality_score = None, analyzed_at = time_time env \<rparr>"

definition analyze_file :: "env \<Rightarrow> string \<Rightarrow> file_analysis" where
  "analyze_file env path =
     (case open_read env path of
        Inl e \<Rightarrow> error_result env path e
      | Inr content \<Rightarrow>
          (case ast_parse env content of
             Inl e \<Rightarrow> error_result env path e
           | Inr tree \<Rightarrow>
               (let analysis =
                  \<lparr> file_path = path,
                    error = None,
                    lines_of_code = Some (length (splitlines content)),
                    complexity = Some (calculate_complexity tree),
                    patterns = Some (extract_patterns tree content),
                    functions' = Some (analyze_functions tree),
                    classes' = Some (analyze_classes tree),
                    import_lists = Some (analyze_imports tree),
                    potential_bugs = Some (detect_potential_bugs content),
                    optimization_opportunities = Some (find_optimizations content),
                    code_quality_score = Some 0,
                    analyzed_at = time_time env \<rparr>
                in analysis\<lparr>code_quality_score := Some (calculate_quality_score analysis)\<rparr>)))"

section \<open>The statements of the specification\<close>

text \<open>The two variants of the result: every analysis key present and no error, or the error alone.\<close>

definition is_success :: "file_analysis \<Rightarrow> bool" where
  "is_success r =
     (error r = None \<and> lines_of_code r \<noteq> None \<and> complexity r \<noteq> None \<and> patterns r \<noteq> None
      \<and> functions' r \<noteq> None \<and> classes' r \<noteq> None \<and> import_lists r \<noteq> None
      \<and> potential_bugs r \<noteq> None \<and> optimization_opportunities r \<noteq> None
      \<and> code_quality_score r \<noteq> None)"

definition is_failure :: "file_analysis \<Rightarrow> bool" where
  "is_failure r =
     (error r \<noteq> None \<and> lines_of_code r = None \<and> complexity r = None \<and> patterns r = None
      \<and> functions' r = None \<and> classes' r = None \<and> import_lists r = None
      \<and> potential_bugs r = None \<and> optimization_opportunities r = None
      \<and> code_quality_score r = None)"

text \<open>
  The score as the specification words it: 100, less 20, 10, 5 and 2 for every critical,
  high, medium and low diagnostic, less three times the excess of the maximal function
  complexity over 10, plus ten times the share of documented functions when there are
  functions, clamped to the interval from 0 to 100. What makes a function documented is
  a parameter.
\<close>

definition count_severity :: "severity \<Rightarrow> bug list \<Rightarrow> nat" where
  "count_severity s bugs = length (filter (\<lambda>b. b_severity b = s) bugs)"

definition unclamped_formula :: "(func_info \<Rightarrow> bool) \<Rightarrow> bug list \<Rightarrow> nat \<Rightarrow> func_info list \<Rightarrow> rat" where
  "unclamped_formula documented bugs max_complexity fs =
     100 - 20 * of_nat (count_severity Critical bugs) - 10 * of_nat (count_severity High bugs)
         - 5 * of_nat (count_severity Medium bugs) - 2 * of_nat (count_severity Low bugs)
         - (if max_complexity > 10 then (of_nat max_complexity - 10) * 3 else 0)
         + (if fs \<noteq> [] then 10 * (of_nat (length (filter documented fs)) / of_nat (length fs))
            else 0)"

definition clamp :: "rat \<Rightarrow> rat" where
  "clamp x = (if x < 0 then 0 else if 100 < x then 100 else x)"

definition score_formula :: "(func_info \<Rightarrow> bool) \<Rightarrow> bug list \<Rightarrow> nat \<Rightarrow> func_info list \<Rightarrow> rat" where
  "score_formula documented bugs max_complexity fs =
     clamp (unclamped_formula documented bugs max_complexity fs)"

text \<open>A function that has a docstring, and one whose docstring is not the empty text.\<close>

definition has_docstring :: "func_info \<Rightarrow> bool" where
  "has_docstring f = (fi_docstring f \<noteq> None)"

definition has_nonempty_docstring :: "func_info \<Rightarrow> bool" where
  "has_nonempty_docstring f = (fi_docstring f \<noteq> None \<and> fi_docstring f \<noteq> Some [])"




text \<open>
  The import lists as the specification words them. A relative import is rendered by
  \<open>render\<close>: with as many leading dots as its level, or with one dot.
\<close>

definition dots_of_level :: "string option \<Rightarrow> nat \<Rightarrow> string" where
  "dots_of_level m level = (if truthy m then replicate level CHR ''.'' @ or_empty m else ''.'')"

definition single_dot :: "string option \<Rightarrow> nat \<Rightarrow> string" where
  "single_dot m level = (if truthy m then ''.'' @ or_empty m else ''.'')"

fun relative_of :: "(string option \<Rightarrow> nat \<Rightarrow> string) \<Rightarrow> kind \<Rightarrow> string list" where
  "relative_of render (ImportFrom m level) = (if level > 0 then [render m level] else [])"
| "relative_of render _ = []"

fun standard_of :: "kind \<Rightarrow> string list" where
  "standard_of (Import names) = filter (\<lambda>a. first_segment a \<in> stdlib_modules) names"
| "standard_of (ImportFrom m level) =
     (if level = 0 \<and> first_segment (or_empty m) \<in> stdlib_modules then [or_empty m] else [])"
| "standard_of _ = []"

fun third_party_of :: "kind \<Rightarrow> string list" where
  "third_party_of (Import names) = filter (\<lambda>a. first_segment a \<notin> stdlib_modules) names"
| "third_party_of (ImportFrom m level) =
     (if level = 0 \<and> first_segment (or_empty m) \<notin> stdlib_modules then [or_empty m] else [])"
| "third_party_of _ = []"

text \<open>The function patterns among the pattern records.\<close>

fun function_pattern_of :: "pattern \<Rightarrow> function_pattern list" where
  "function_pattern_of (FunctionPattern p) = [p]"
| "function_pattern_of _ = []"

definition function_patterns :: "pattern list \<Rightarrow> function_pattern list" where
  "function_patterns ps = concat (map function_pattern_of ps)"

text \<open>A tree without the identities of its nodes: what two parses of one text share.\<close>

fun erase_addr :: "node \<Rightarrow> node" where
  "erase_addr (Node k l a cs) = Node k l 0 (map (\<lambda>fc. (fst fc, erase_addr (snd fc))) cs)"

text \<open>A result without its time stamp.\<close>

definition without_time :: "file_analysis \<Rightarrow> file_analysis" where
  "without_time r = r\<lparr>analyzed_at := 0\<rparr>"

text \<open>The formula applied to the diagnostics, metrics and function list of a result.\<close>

definition formula_of_result :: "(func_info \<Rightarrow> bool) \<Rightarrow> file_analysis \<Rightarrow> rat" where
  "formula_of_result documented r =
     score_formula documented
       (get_or (potential_bugs r) [])
       (dict_get (get_or (complexity r) Map.empty) Max_function_complexity 0)
       (get_or (functions' r) [])"

section \<open>Example inputs\<close>

text \<open>
  The tree of
  \<^verbatim>\<open>def f(x):\<close> /
  \<^verbatim>\<open>    if x:\<close> /
  \<^verbatim>\<open>        for i in x:\<close> /
  \<^verbatim>\<open>            pass\<close> /
  \<^verbatim>\<open>async def g():\<close> /
  \<^verbatim>\<open>    while True:\<close> /
  \<^verbatim>\<open>        pass\<close>
\<close>

definition example_f :: node where
  "example_f =
     Node (FunctionDef \<lparr> fd_name = ''f'', fd_args = [''x''], fd_defaults = 0, fd_docstring = None \<rparr>) 1 2
       [(Other_field, Node (Other ''arguments'' False) 0 3
           [(Other_field, Node (Other ''arg'' True) 1 4 [])]),
        (Body, Node If 2 5
           [(Other_field, Node (Name ''x'') 2 6 []),
            (Body, Node For 3 7
               [(Other_field, Node (Name ''i'') 3 8 []),
                (Other_field, Node (Name ''x'') 3 9 []),
                (Body, Node (Other ''Pass'' True) 4 10 [])])])]"

definition example_g :: node where
  "example_g =
     Node (AsyncFunctionDef \<lparr> fd_name = ''g'', fd_args = [], fd_defaults = 0, fd_docstring = None \<rparr>) 5 11
       [(Other_field, Node (Other ''arguments'' False) 0 12 []),
        (Body, Node While 6 13
           [(Other_field, Node (Other ''Constant'' True) 6 14 []),
            (Body, Node (Other ''Pass'' True) 7 15 [])])]"

definition example_tree :: node where
  "example_tree = Node Module 0 1 [(Body, example_f), (Body, example_g)]"

text \<open>
  The text of the two lines
  \<^verbatim>\<open>total = f(10) + f(10)\<close> and \<^verbatim>\<open>s += 'x'\<close>.
\<close>

definition example_text :: string where
  "example_text = ''total = f(10) + f(10)'' @ [newline] @ ''s += '' @ [CHR 0x27, CHR ''x'', CHR 0x27]"

text \<open>
  Files of an example environment. \<open>doc.py\<close> holds
  \<^verbatim>\<open>def f():\<close> / \<^verbatim>\<open>    'doc'\<close> / \<^verbatim>\<open>    global x\<close>;
  \<open>nodoc.py\<close> holds
  \<^verbatim>\<open>def f():\<close> / \<^verbatim>\<open>    ""\<close> / \<^verbatim>\<open>    return 42\<close>;
  \<open>cls.py\<close> holds
  \<^verbatim>\<open>class A(m.B):\<close> / \<^verbatim>\<open>    pass\<close>;
  \<open>rel.py\<close> holds
  \<^verbatim>\<open>import os.path, numpy\<close> / \<^verbatim>\<open>from ..pkg import x\<close> / \<^verbatim>\<open>from . import y\<close>;
  \<open>empty.py\<close> is empty, \<open>broken.py\<close> holds an open parenthesis, and no other file
  exists. The trees are those \<^verbatim>\<open>ast.parse\<close> builds, the objects numbered from \<open>a\<close>.
\<close>

definition doc_text :: string where
  "doc_text = ''def f():'' @ [newline] @ ''    '' @ [CHR 0x27] @ ''doc'' @ [CHR 0x27, newline]
              @ ''    global x'' @ [newline]"

definition doc_tree :: "nat \<Rightarrow> node" where
  "doc_tree a =
     Node Module 0 a
       [(Body, Node (FunctionDef \<lparr> fd_name = ''f'', fd_args = [], fd_defaults = 0,
                                    fd_docstring = Some ''doc'' \<rparr>) 1 (a + 1)
           [(Other_field, Node (Other ''arguments'' False) 0 (a + 2) []),
            (Body, Node (Other ''Expr'' True) 2 (a + 3)
               [(Other_field, Node (Other ''Constant'' True) 2 (a + 4) [])]),
            (Body, Node (Other ''Global'' True) 3 (a + 5) [])])]"

definition nodoc_text :: string where
  "nodoc_text = ''def f():'' @ [newline] @ ''    '' @ [CHR 0x22, CHR 0x22, newline]
                @ ''    return 42'' @ [newline]"

definition nodoc_tree :: "nat \<Rightarrow> node" where
  "nodoc_tree a =
     Node Module 0 a
       [(Body, Node (FunctionDef \<lparr> fd_name = ''f'', fd_args = [], fd_defaults = 0,
                                    fd_docstring = Some [] \<rparr>) 1 (a + 1)
           [(Other_field, Node (Other ''arguments'' False) 0 (a + 2) []),
            (Body, Node (Other ''Expr'' True) 2 (a + 3)
               [(Other_field, Node (Other ''Constant'' True) 2 (a + 4) [])]),
            (Body, Node Return 3 (a + 5)
               [(Other_field, Node (Other ''Constant'' True) 3 (a + 6) [])])])]"

definition cls_text :: string where
  "cls_text = ''class A(m.B):'' @ [newline] @ ''    pass'' @ [newline]"

definition cls_tree :: "nat \<Rightarrow> node" where
  "cls_tree a =
     Node Module 0 a
       [(Body, Node (ClassDef \<lparr> cd_name = ''A'', cd_docstring = None \<rparr>) 1 (a + 1)
           [(Bases, Node (Other ''Attribute'' True) 1 (a + 2)
               [(Other_field, Node (Name ''m'') 1 (a + 3)
                   [(Other_field, Node (Other ''Load'' False) 0 (a + 4) [])]),
                (Other_field, Node (Other ''Load'' False) 0 (a + 4) [])]),
            (Body, Node (Other ''Pass'' True) 2 (a + 5) [])])]"

definition rel_text :: string where
  "rel_text = ''import os.path, numpy'' @ [newline] @ ''from ..pkg import x'' @ [newline]
              @ ''from . import y'' @ [newline]"

definition rel_tree :: "nat \<Rightarrow> node" where
  "rel_tree a =
     Node Module 0 a
       [(Body, Node (Import [''os.path'', ''numpy'']) 1 (a + 1)
           [(Other_field, Node (Other ''alias'' True) 1 (a + 2) []),
            (Other_field, Node (Other ''alias'' True) 1 (a + 3) [])]),
        (Body, Node (ImportFrom (Some ''pkg'') 2) 2 (a + 4)
           [(Other_field, Node (Other ''alias'' True) 2 (a + 5) [])]),
        (Body, Node (ImportFrom None 1) 3 (a + 6)
           [(Other_field, Node (Other ''alias'' True) 3 (a + 7) [])])]"

definition syntax_error :: exn where
  "syntax_error = Exn ''SyntaxError'' ''invalid syntax''"

definition example_parse :: "nat \<Rightarrow> string \<Rightarrow> exn + node" where
  "example_parse a content =
     (if content = [] then Inr (Node Module 0 a [])
      else if content = doc_text then Inr (doc_tree a)
      else if content = nodoc_text then Inr (nodoc_tree a)
      else if content = cls_text then Inr (cls_tree a)
      else if content = rel_text then Inr (rel_tree a)
      else Inl syntax_error)"

definition example_read :: "string \<Rightarrow> exn + string" where
  "example_read path =
     (if path = ''empty.py'' then Inr []
      else if path = ''doc.py'' then Inr doc_text
      else if path = ''nodoc.py'' then Inr nodoc_text
      else if path = ''cls.py'' then Inr cls_text
      else if path = ''rel.py'' then Inr rel_text
      else if path = ''broken.py'' then Inr ''(''
      else Inl (Exn ''FileNotFoundError'' ''No such file or directory''))"

text \<open>One run: the addresses the parser hands out start at \<open>a\<close>, the clock shows \<open>t\<close>.\<close>

definition example_env :: "nat \<Rightarrow> rat \<Rightarrow> env" where
  "example_env a t = \<lparr> open_read = example_read, ast_parse = example_parse a, time_time = t \<rparr>"

definition doc_result :: file_analysis where
  "doc_result = analyze_file (example_env 100 5) ''doc.py''"

definition nodoc_result :: file_analysis where
  "nodoc_result = analyze_file (example_env 100 5) ''nodoc.py''"


section \<open>Properties\<close>


subsection \<open>The matcher stays inside the line\<close>

lemma star_greedy_bound:
  assumes "\<And>st st'. st' \<in> set (f st) \<Longrightarrow> fst st \<le> L \<Longrightarrow> fst st' \<le> L"
  shows "st' \<in> set (star_greedy f n st) \<Longrightarrow> fst st \<le> L \<Longrightarrow> fst st' \<le> L"
proof (induction n arbitrary: st)
  case 0
  then show ?case by simp
next
  case (Suc n)
  from Suc.prems(1) consider "st' = st"
    | m where "m \<in> set (f st)" "st' \<in> set (star_greedy f n m)"
    by auto
  then show ?case
  proof cases
    case 1
    then show ?thesis using Suc.prems(2) by simp
  next
    case 2
    then show ?thesis using Suc.IH assms Suc.prems(2) by blast
  qed
qed

lemma star_lazy_bound:
  assumes "\<And>st st'. st' \<in> set (f st) \<Longrightarrow> fst st \<le> L \<Longrightarrow> fst st' \<le> L"
  shows "st' \<in> set (star_lazy f n st) \<Longrightarrow> fst st \<le> L \<Longrightarrow> fst st' \<le> L"
proof (induction n arbitrary: st)
  case 0
  then show ?case by simp
next
  case (Suc n)
  from Suc.prems(1) consider "st' = st"
    | m where "m \<in> set (f st)" "st' \<in> set (star_lazy f n m)"
    by auto
  then show ?case
  proof cases
    case 1
    then show ?thesis using Suc.prems(2) by simp
  next
    case 2
    then show ?thesis using Suc.IH assms Suc.prems(2) by blast
  qed
qed

lemma rmatch_bound:
  "st' \<in> set (rmatch r s st) \<Longrightarrow> fst st \<le> length s \<Longrightarrow> fst st' \<le> length s"
proof (induction r arbitrary: st st')
  case (Atom a)
  then show ?case by (auto simp: char_at_def split: if_splits)
next
  case (OneOf as)
  then show ?case by (auto simp: char_at_def split: if_splits)
next
  case (NoneOf as)
  then show ?case by (auto simp: char_at_def split: if_splits)
next
  case (Seq a b)
  from Seq.prems(1) obtain m where "m \<in> set (rmatch a s st)" "st' \<in> set (rmatch b s m)"
    by auto
  then show ?case using Seq.IH Seq.prems(2) by blast
next
  case (Star r)
  from Star.prems(1) have "st' \<in> set (star_greedy (rmatch r s) (length s - fst st) st)"
    by simp
  then show ?case using star_greedy_bound [of "rmatch r s" "length s"] Star.IH Star.prems(2)
    by blast
next
  case (LazyStar r)
  from LazyStar.prems(1) have "st' \<in> set (star_lazy (rmatch r s) (length s - fst st) st)"
    by simp
  then show ?case using star_lazy_bound [of "rmatch r s" "length s"] LazyStar.IH LazyStar.prems(2)
    by blast
next
  case (Group k r)
  from Group.prems(1) obtain m where "m \<in> set (rmatch r s st)" "fst st' = fst m"
    by auto
  then show ?case using Group.IH Group.prems(2) by metis
next
  case (Backref k)
  show ?case
  proof (cases "map_of (snd st) k")
    case None
    with Backref show ?thesis by simp
  next
    case (Some g)
    with Backref.prems(1) have g: "take (length g) (drop (fst st) s) = g"
      and st': "fst st' = fst st + length g"
      by (auto split: if_splits)
    from g have "length (take (length g) (drop (fst st) s)) = length g" by simp
    then have "length g \<le> length s - fst st" by simp
    with st' Backref.prems(2) show ?thesis by simp
  qed
qed (auto split: if_splits)

lemma star_greedy_fuel:
  assumes "\<And>st st'. st' \<in> set (f st) \<Longrightarrow> fst st \<le> L \<Longrightarrow> fst st' \<le> L"
  shows "fst st \<le> L \<Longrightarrow> L - fst st \<le> n \<Longrightarrow> star_greedy f (Suc n) st = star_greedy f n st"
proof (induction n arbitrary: st)
  case 0
  then have "fst st = L" by simp
  then have "filter (\<lambda>st'. fst st < fst st') (f st) = []"
    using assms [of _ st] by (auto simp: filter_empty_conv simp flip: not_le)
  then show ?case by simp
next
  case (Suc n)
  have "star_greedy f (Suc n) m = star_greedy f n m"
    if "m \<in> set (filter (\<lambda>st'. fst st < fst st') (f st))" for m
  proof -
    from that have "m \<in> set (f st)" and lt: "fst st < fst m" by simp_all
    then have "fst m \<le> L" using assms Suc.prems(1) by blast
    moreover have "L - fst m \<le> n" using lt Suc.prems(2) by simp
    ultimately show ?thesis by (rule Suc.IH)
  qed
  then have M: "map (star_greedy f (Suc n)) (filter (\<lambda>st'. fst st < fst st') (f st)) =
             map (star_greedy f n) (filter (\<lambda>st'. fst st < fst st') (f st))"
    by (intro map_cong) simp_all
  have "star_greedy f (Suc (Suc n)) st =
        concat (map (star_greedy f (Suc n)) (filter (\<lambda>st'. fst st < fst st') (f st))) @ [st]"
    by (rule star_greedy.simps(2))
  also have "\<dots> = concat (map (star_greedy f n) (filter (\<lambda>st'. fst st < fst st') (f st))) @ [st]"
    by (simp only: M)
  also have "\<dots> = star_greedy f (Suc n) st"
    by (rule star_greedy.simps(2) [symmetric])
  finally show ?case .
qed

lemma star_lazy_fuel:
  assumes "\<And>st st'. st' \<in> set (f st) \<Longrightarrow> fst st \<le> L \<Longrightarrow> fst st' \<le> L"
  shows "fst st \<le> L \<Longrightarrow> L - fst st \<le> n \<Longrightarrow> star_lazy f (Suc n) st = star_lazy f n st"
proof (induction n arbitrary: st)
  case 0
  then have "fst st = L" by simp
  then have "filter (\<lambda>st'. fst st < fst st') (f st) = []"
    using assms [of _ st] by (auto simp: filter_empty_conv simp flip: not_le)
  then show ?case by simp
next
  case (Suc n)
  have "star_lazy f (Suc n) m = star_lazy f n m"
    if "m \<in> set (filter (\<lambda>st'. fst st < fst st') (f st))" for m
  proof -
    from that have "m \<in> set (f st)" and lt: "fst st < fst m" by simp_all
    then have "fst m \<le> L" using assms Suc.prems(1) by blast
    moreover have "L - fst m \<le> n" using lt Suc.prems(2) by simp
    ultimately show ?thesis by (rule Suc.IH)
  qed
  then have M: "map (star_lazy f (Suc n)) (filter (\<lambda>st'. fst st < fst st') (f st)) =
             map (star_lazy f n) (filter (\<lambda>st'. fst st < fst st') (f st))"
    by (intro map_cong) simp_all
  have "star_lazy f (Suc (Suc n)) st =
        st # concat (map (star_lazy f (Suc n)) (filter (\<lambda>st'. fst st < fst st') (f st)))"
    by (rule star_lazy.simps(2))
  also have "\<dots> = st # concat (map (star_lazy f n) (filter (\<lambda>st'. fst st < fst st') (f st)))"
    by (simp only: M)
  also have "\<dots> = star_lazy f (Suc n) st"
    by (rule star_lazy.simps(2) [symmetric])
  finally show ?case .
qed

text \<open>
  The fuel of the repetitions is enough: with more rounds allowed, the matcher finds
  the same matches in the same order.
\<close>

lemma star_fuel_enough:
  assumes "fst st \<le> length s"
  shows "star_greedy (rmatch r s) (length s - fst st + k) st = rmatch (Star r) s st"
    and "star_lazy (rmatch r s) (length s - fst st + k) st = rmatch (LazyStar r) s st"
proof -
  show "star_greedy (rmatch r s) (length s - fst st + k) st = rmatch (Star r) s st"
  proof (induction k)
    case 0 show ?case by simp
  next
    case (Suc k)
    have "star_greedy (rmatch r s) (Suc (length s - fst st + k)) st =
          star_greedy (rmatch r s) (length s - fst st + k) st"
      by (rule star_greedy_fuel [where L = "length s"]) (use assms rmatch_bound in auto)
    with Suc show ?case by simp
  qed
  show "star_lazy (rmatch r s) (length s - fst st + k) st = rmatch (LazyStar r) s st"
  proof (induction k)
    case 0 show ?case by simp
  next
    case (Suc k)
    have "star_lazy (rmatch r s) (Suc (length s - fst st + k)) st =
          star_lazy (rmatch r s) (length s - fst st + k) st"
      by (rule star_lazy_fuel [where L = "length s"]) (use assms rmatch_bound in auto)
    with Suc show ?case by simp
  qed
qed

subsection \<open>Traversal and complexity metrics\<close>

lemma mset_subtree: "mset (subtree n) = {#n#} + (\<Sum>c\<leftarrow>iter_child_nodes n. mset (subtree c))"
  by (cases n) (simp add: iter_child_nodes_def mset_concat comp_def)

lemma mset_walk_queue: "mset (walk_queue q) = (\<Sum>n\<leftarrow>q. mset (subtree n))"
proof (induction q rule: walk_queue.induct)
  case 1 show ?case by simp
next
  case (2 n todo)
  then show ?case by (simp add: mset_subtree [of n] ac_simps)
qed

lemma mset_walk: "mset (walk t) = mset (subtree t)"
  by (simp add: walk_def mset_walk_queue mset_subtree [of t])

lemma set_walk: "set (walk t) = set (subtree t)"
  using mset_walk [of t] by (metis set_mset_mset)

lemma count_walk: "length (filter P (walk t)) = length (filter P (subtree t))"
proof -
  have "size (filter_mset P (mset (walk t))) = size (filter_mset P (mset (subtree t)))"
    by (simp add: mset_walk)
  then show ?thesis by (simp only: mset_filter[symmetric] size_mset)
qed

lemma func_complexity_local: "func_complexity f = local_complexity f"
  by (simp add: func_complexity_def local_complexity_def count_nodes_def count_walk)

lemma fold_count:
  assumes "\<And>n c. g (step n c) = g c + (if P n then 1 else (0::nat))"
  shows "g (fold step ns c) = g c + length (filter P ns)"
  by (induction ns arbitrary: c) (simp_all add: assms)

lemma Max_insert_max:
  fixes a b :: nat
  assumes "finite S"
  shows "Max (insert (max a b) S) = Max (insert a (insert b S))"
  using assms by (cases "S = {}") (simp_all add: max.assoc)

lemma fold_max:
  assumes "\<And>n c. g (step n c) = (if P n then max (g c) (h n) else (g c :: nat))"
  shows "g (fold step ns c) = Max (insert (g c) (h ` {n \<in> set ns. P n}))"
proof (induction ns arbitrary: c)
  case Nil show ?case by simp
next
  case (Cons n ns)
  show ?case
  proof (cases "P n")
    case True
    then have eq: "{m \<in> set (n # ns). P m} = insert n {m \<in> set ns. P m}" by auto
    have "g (fold step (n # ns) c) = Max (insert (max (g c) (h n)) (h ` {m \<in> set ns. P m}))"
      using True by (simp add: Cons.IH assms)
    also have "\<dots> = Max (insert (g c) (insert (h n) (h ` {m \<in> set ns. P m})))"
      by (rule Max_insert_max) simp
    finally show ?thesis by (simp only: eq image_insert)
  next
    case False
    then have eq: "{m \<in> set (n # ns). P m} = {m \<in> set ns. P m}" by auto
    have "g (fold step (n # ns) c) = Max (insert (g c) (h ` {m \<in> set ns. P m}))"
      using False by (simp add: Cons.IH assms)
    then show ?thesis by (simp only: eq)
  qed
qed

lemma step_cyclomatic:
  "dict_get (complexity_step n c) Cyclomatic 0 =
   dict_get c Cyclomatic 0 + (if is_branch (kind n) then 1 else 0)"
  by (cases "kind n") (simp_all add: complexity_step_def incr_def dict_get_def Let_def)

lemma step_try:
  "dict_get (complexity_step n c) Try_blocks 0 =
   dict_get c Try_blocks 0 + (if kind n = Try then 1 else 0)"
  by (cases "kind n") (simp_all add: complexity_step_def incr_def dict_get_def Let_def)

lemma step_except:
  "dict_get (complexity_step n c) Except_blocks 0 =
   dict_get c Except_blocks 0 + (if kind n = ExceptHandler then 1 else 0)"
  by (cases "kind n") (simp_all add: complexity_step_def incr_def dict_get_def Let_def)

lemma step_functions:
  "dict_get (complexity_step n c) Functions 0 =
   dict_get c Functions 0 + (if is_function_def (kind n) then 1 else 0)"
  by (cases "kind n")
     (simp_all add: complexity_step_def incr_def dict_get_def Let_def is_function_def_def)

lemma step_classes:
  "dict_get (complexity_step n c) Classes 0 =
   dict_get c Classes 0 + (if is_ClassDef (kind n) then 1 else 0)"
  by (cases "kind n") (simp_all add: complexity_step_def incr_def dict_get_def Let_def)

lemma step_comprehensions:
  "dict_get (complexity_step n c) Comprehensions 0 =
   dict_get c Comprehensions 0 + (if is_comprehension (kind n) then 1 else 0)"
  by (cases "kind n") (simp_all add: complexity_step_def incr_def dict_get_def Let_def)

lemma step_max:
  "dict_get (complexity_step n c) Max_function_complexity 0 =
   (if is_function_def (kind n)
    then max (dict_get c Max_function_complexity 0) (func_complexity n)
    else dict_get c Max_function_complexity 0)"
  by (cases "kind n")
     (simp_all add: complexity_step_def incr_def dict_get_def Let_def is_function_def_def)

lemma empty_metric: "dict_get Map.empty k 0 = 0"
  by (simp add: dict_get_def)

lemma metric_cyclomatic:
  "dict_get (calculate_complexity t) Cyclomatic 0 = count_nodes is_branch t"
  unfolding calculate_complexity_def count_nodes_def
  by (simp add: fold_count [where g = "\<lambda>c. dict_get c Cyclomatic 0", OF step_cyclomatic]
      empty_metric count_walk)

lemma metric_try:
  "dict_get (calculate_complexity t) Try_blocks 0 = count_nodes (\<lambda>k. k = Try) t"
  unfolding calculate_complexity_def count_nodes_def
  by (simp add: fold_count [where g = "\<lambda>c. dict_get c Try_blocks 0", OF step_try]
      empty_metric count_walk)

lemma metric_except:
  "dict_get (calculate_complexity t) Except_blocks 0 = count_nodes (\<lambda>k. k = ExceptHandler) t"
  unfolding calculate_complexity_def count_nodes_def
  by (simp add: fold_count [where g = "\<lambda>c. dict_get c Except_blocks 0", OF step_except]
      empty_metric count_walk)

lemma metric_functions:
  "dict_get (calculate_complexity t) Functions 0 = count_nodes is_function_def t"
  unfolding calculate_complexity_def count_nodes_def
  by (simp add: fold_count [where g = "\<lambda>c. dict_get c Functions 0", OF step_functions]
      empty_metric count_walk)

lemma metric_classes:
  "dict_get (calculate_complexity t) Classes 0 = count_nodes is_ClassDef t"
  unfolding calculate_complexity_def count_nodes_def
  by (simp add: fold_count [where g = "\<lambda>c. dict_get c Classes 0", OF step_classes]
      empty_metric count_walk)

lemma metric_comprehensions:
  "dict_get (calculate_complexity t) Comprehensions 0 = count_nodes is_comprehension t"
  unfolding calculate_complexity_def count_nodes_def
  by (simp add: fold_count [where g = "\<lambda>c. dict_get c Comprehensions 0", OF step_comprehensions]
      empty_metric count_walk)

lemma metric_max:
  "dict_get (calculate_complexity t) Max_function_complexity 0 = max_local_complexity t"
  unfolding calculate_complexity_def max_local_complexity_def
  by (simp add: fold_max [where g = "\<lambda>c. dict_get c Max_function_complexity 0", OF step_max]
      empty_metric set_walk func_complexity_local [abs_def])

text \<open>
  C4: after a successful parse, the metrics computed by the traversal are, read with
  default 0: \<open>cyclomatic\<close> the number of conditional, for-loop and while-loop nodes of
  the tree; \<open>try_blocks\<close> the number of try nodes; \<open>except_blocks\<close> the number of
  exception handlers; \<open>functions\<close> the number of function definitions, sync or async;
  \<open>classes\<close> the number of class definitions; \<open>comprehensions\<close> the number of
  list, dict and set comprehensions; and \<open>max_function_complexity\<close> the greatest local
  complexity of a function definition of the tree, the local complexity of a function
  being the number of conditional and loop nodes anywhere in its subtree, nested
  functions included.
\<close>

theorem complexity_metrics:
  "dict_get (calculate_complexity t) Cyclomatic 0 = count_nodes is_branch t
   \<and> dict_get (calculate_complexity t) Try_blocks 0 = count_nodes (\<lambda>k. k = Try) t
   \<and> dict_get (calculate_complexity t) Except_blocks 0 = count_nodes (\<lambda>k. k = ExceptHandler) t
   \<and> dict_get (calculate_complexity t) Functions 0 = count_nodes is_function_def t
   \<and> dict_get (calculate_complexity t) Classes 0 = count_nodes is_ClassDef t
   \<and> dict_get (calculate_complexity t) Comprehensions 0 = count_nodes is_comprehension t
   \<and> dict_get (calculate_complexity t) Max_function_complexity 0 = max_local_complexity t"
  using metric_cyclomatic metric_try metric_except metric_functions metric_classes
    metric_comprehensions metric_max
  by simp

theorem complexity_metrics_witness:
  "dict_get (calculate_complexity example_tree) Cyclomatic 0 = 3
   \<and> dict_get (calculate_complexity example_tree) Functions 0 = 2
   \<and> dict_get (calculate_complexity example_tree) Max_function_complexity 0 = 2"
proof -
  have a: "count_nodes is_branch example_tree = 3" by code_simp
  have b: "count_nodes is_function_def example_tree = 2" by code_simp
  have c: "max_local_complexity example_tree = 2" by code_simp
  show ?thesis using complexity_metrics [of example_tree] a b c by simp
qed

subsection \<open>Rules that need a newline\<close>

lemma atom_newline_no_match:
  assumes "newline \<notin> set s"
  shows "rmatch (Atom (Lit newline)) s st = []"
proof -
  have "\<not> char_at (in_class (Lit newline)) s (fst st)"
  proof
    assume "char_at (in_class (Lit newline)) s (fst st)"
    then have "fst st < length s" and "s ! fst st = newline"
      by (simp_all add: char_at_def)
    then have "newline \<in> set s" by (metis nth_mem)
    with assms show False by simp
  qed
  then show ?thesis by simp
qed

lemma needs_newline_no_match:
  "newline \<notin> set s \<Longrightarrow> needs_newline r \<Longrightarrow> rmatch r s st = []"
proof (induction r arbitrary: st)
  case (Atom a)
  then have "a = Lit newline" by simp
  then show ?case using atom_newline_no_match [OF Atom.prems(1)] by simp
next
  case (Seq a b)
  from Seq.prems(2) have "needs_newline a \<or> needs_newline b" by simp
  then show ?case
  proof
    assume "needs_newline a"
    then show ?thesis using Seq.IH(1) Seq.prems(1) by simp
  next
    assume "needs_newline b"
    then have "\<And>st'. rmatch b s st' = []" using Seq.IH(2) Seq.prems(1) by simp
    then show ?thesis by simp
  qed
next
  case (Group k r)
  then show ?case by simp
qed simp_all

lemma needs_newline_no_search:
  "newline \<notin> set line \<Longrightarrow> needs_newline pattern \<Longrightarrow> \<not> re_search pattern line"
  by (simp add: re_search_def needs_newline_no_match list_ex_iff)

lemma linebreak_newline: "is_linebreak newline"
  by (simp add: is_linebreak_def newline_def ord_def)

lemma splitlines_from_no_newline:
  "newline \<notin> set cur \<Longrightarrow> l \<in> set (splitlines_from cur cs) \<Longrightarrow> newline \<notin> set l"
proof (induction cur cs rule: splitlines_from.induct)
  case (1 cur)
  then show ?case by (cases "cur = []") simp_all
next
  case (2 cur c cs)
  note mem = \<open>l \<in> set (splitlines_from cur (c # cs))\<close>
  note cur = \<open>newline \<notin> set cur\<close>
  have empty: "newline \<notin> set ([]::string)" by simp
  show ?case
  proof (cases "c = carriage_return")
    case cr: True
    show ?thesis
    proof (cases cs)
      case Nil
      with mem cr cur show ?thesis by simp
    next
      case (Cons d ds)
      show ?thesis
      proof (cases "d = newline")
        case True
        with mem cr Cons have "l = cur \<or> l \<in> set (splitlines_from [] ds)" by simp
        then show ?thesis using cur "2.IH"(1) [OF cr Cons True empty] by blast
      next
        case False
        with mem cr Cons have "l = cur \<or> l \<in> set (splitlines_from [] (d # ds))" by simp
        then show ?thesis using cur "2.IH"(2) [OF cr Cons False empty] by blast
      qed
    qed
  next
    case ncr: False
    show ?thesis
    proof (cases "is_linebreak c")
      case True
      with mem ncr have "l = cur \<or> l \<in> set (splitlines_from [] cs)" by simp
      then show ?thesis using cur "2.IH"(3) [OF ncr True empty] by blast
    next
      case nl: False
      then have "c \<noteq> newline" using linebreak_newline by blast
      with cur have "newline \<notin> set (cur @ [c])" by simp
      moreover from mem ncr nl have "l \<in> set (splitlines_from (cur @ [c]) cs)" by simp
      ultimately show ?thesis using "2.IH"(4) [OF ncr nl] by blast
    qed
  qed
qed

lemma splitlines_no_newline: "l \<in> set (splitlines content) \<Longrightarrow> newline \<notin> set l"
  unfolding splitlines_def by (rule splitlines_from_no_newline [of "[]"]) simp_all

lemma needs_newline_duplicate_code: "needs_newline duplicate_code_pattern"
  by (simp add: duplicate_code_pattern_def)

lemma needs_newline_list_comprehension: "needs_newline list_comprehension_pattern"
  by (simp add: list_comprehension_pattern_def)

lemma needs_newline_repeated_calculation: "needs_newline repeated_calculation_pattern"
  by (simp add: repeated_calculation_pattern_def)

lemma bugs_of_line_types:
  "b \<in> set (bugs_of_line nl) \<Longrightarrow> \<exists>p. (b_type b, p) \<in> set bug_patterns \<and> re_search p (snd nl)"
  by (auto simp: bugs_of_line_def split: if_splits)

lemma optimizations_of_line_types:
  "x \<in> set (optimizations_of_line nl) \<Longrightarrow>
   \<exists>p. (o_type x, p) \<in> set optimization_patterns \<and> re_search p (snd nl)"
  by (auto simp: optimizations_of_line_def split: if_splits)

lemma enumerate_snd: "nl \<in> set (enumerate n xs) \<Longrightarrow> snd nl \<in> set xs"
  by (cases nl) (auto simp: in_set_enumerate_eq)

text \<open>
  C9: for every input text, the lexical scan emits no bug record of the rule
  \<open>duplicate_code\<close> and no optimization record of the rules \<open>list_comprehension\<close>
  and \<open>repeated_calculation\<close>: each of the three patterns needs a newline character,
  and no line that \<^verbatim>\<open>splitlines\<close> returns holds one.
\<close>

theorem newline_rules_never_fire:
  "(\<forall>b \<in> set (detect_potential_bugs content). b_type b \<noteq> Duplicate_code)
   \<and> (\<forall>x \<in> set (find_optimizations content).
         o_type x \<noteq> List_comprehension \<and> o_type x \<noteq> Repeated_calculation)
   \<and> needs_newline duplicate_code_pattern
   \<and> needs_newline list_comprehension_pattern
   \<and> needs_newline repeated_calculation_pattern
   \<and> (\<forall>line \<in> set (splitlines content). newline \<notin> set line)"
proof -
  have bugs: "b_type b \<noteq> Duplicate_code" if "b \<in> set (detect_potential_bugs content)" for b
  proof
    assume dup: "b_type b = Duplicate_code"
    from that obtain nl where nl: "nl \<in> set (enumerate 1 (splitlines content))"
      and b: "b \<in> set (bugs_of_line nl)"
      by (auto simp: detect_potential_bugs_def)
    from bugs_of_line_types [OF b] dup
    have "re_search duplicate_code_pattern (snd nl)"
      by (auto simp: bug_patterns_def)
    moreover have "newline \<notin> set (snd nl)"
      using enumerate_snd [OF nl] by (rule splitlines_no_newline)
    ultimately show False
      using needs_newline_no_search needs_newline_duplicate_code by blast
  qed
  have opts: "o_type x \<noteq> List_comprehension \<and> o_type x \<noteq> Repeated_calculation"
    if "x \<in> set (find_optimizations content)" for x
  proof -
    from that obtain nl where nl: "nl \<in> set (enumerate 1 (splitlines content))"
      and x: "x \<in> set (optimizations_of_line nl)"
      by (auto simp: find_optimizations_def)
    have nonl: "newline \<notin> set (snd nl)"
      using enumerate_snd [OF nl] by (rule splitlines_no_newline)
    from optimizations_of_line_types [OF x]
    obtain p where p: "(o_type x, p) \<in> set optimization_patterns" "re_search p (snd nl)"
      by blast
    have "\<not> needs_newline p" using needs_newline_no_search [OF nonl] p(2) by blast
    with p(1) show ?thesis
      using needs_newline_list_comprehension needs_newline_repeated_calculation
      by (auto simp: optimization_patterns_def)
  qed
  show ?thesis
    using bugs opts needs_newline_duplicate_code needs_newline_list_comprehension
      needs_newline_repeated_calculation splitlines_no_newline
    by blast
qed

theorem newline_rules_never_fire_witness:
  "map b_type (detect_potential_bugs example_text) = [Unused_variable, Magic_number]
   \<and> map o_type (find_optimizations example_text) = [String_concatenation]
   \<and> Duplicate_code \<notin> b_type ` set (detect_potential_bugs example_text)
   \<and> List_comprehension \<notin> o_type ` set (find_optimizations example_text)
   \<and> Repeated_calculation \<notin> o_type ` set (find_optimizations example_text)
   \<and> newline \<notin> set (concat (splitlines example_text))"
proof -
  have a: "map b_type (detect_potential_bugs example_text) = [Unused_variable, Magic_number]"
    by code_simp
  have b: "map o_type (find_optimizations example_text) = [String_concatenation]"
    by code_simp
  show ?thesis using newline_rules_never_fire [of example_text] a b by auto
qed

subsection \<open>The quality score\<close>

lemma fold_penalty:
  "fold penalty_step bugs s =
     s - 20 * of_nat (count_severity Critical bugs) - 10 * of_nat (count_severity High bugs)
       - 5 * of_nat (count_severity Medium bugs) - 2 * of_nat (count_severity Low bugs)"
proof (induction bugs arbitrary: s)
  case Nil
  show ?case by (simp add: count_severity_def)
next
  case (Cons b bugs)
  show ?case
  proof -
    have "fold penalty_step (b # bugs) s = fold penalty_step bugs (penalty_step b s)"
      by simp
    also note Cons.IH [of "penalty_step b s"]
    finally have F: "fold penalty_step (b # bugs) s =
        penalty_step b s - 20 * of_nat (count_severity Critical bugs)
          - 10 * of_nat (count_severity High bugs) - 5 * of_nat (count_severity Medium bugs)
          - 2 * of_nat (count_severity Low bugs)" .
    show ?thesis unfolding F
      by (cases "b_severity b") (simp_all add: penalty_step_def count_severity_def)
  qed
qed

lemma truthy_nonempty: "truthy (fi_docstring f) = has_nonempty_docstring f"
  by (cases "fi_docstring f") (simp_all add: truthy_def has_nonempty_docstring_def)

lemma excess_of_nat: "10 < m \<Longrightarrow> (of_nat ((m - 10) * 3) :: rat) = (of_nat m - 10) * 3"
  by (simp add: of_nat_diff)

lemma unclamped_score_formula:
  "unclamped_score a =
     unclamped_formula has_nonempty_docstring
       (get_or (potential_bugs a) [])
       (dict_get (get_or (complexity a) Map.empty) Max_function_complexity 0)
       (get_or (functions' a) [])"
  unfolding unclamped_score_def unclamped_formula_def Let_def fold_penalty truthy_nonempty
  by (simp add: excess_of_nat)

lemma clamp_max_min: "max 0 (min 100 x) = clamp x"
  by (simp add: clamp_def max_def min_def)

lemma calculate_quality_score_formula:
  "calculate_quality_score a = formula_of_result has_nonempty_docstring a"
  by (simp add: calculate_quality_score_def formula_of_result_def score_formula_def
      clamp_max_min unclamped_score_formula)

lemma calculate_quality_score_range:
  "0 \<le> calculate_quality_score a \<and> calculate_quality_score a \<le> 100"
  by (simp add: calculate_quality_score_def)

lemma analyze_file_success:
  assumes "open_read env path = Inr content" and "ast_parse env content = Inr tree"
  shows "analyze_file env path =
     \<lparr> file_path = path,
       error = None,
       lines_of_code = Some (length (splitlines content)),
       complexity = Some (calculate_complexity tree),
       patterns = Some (extract_patterns tree content),
       functions' = Some (analyze_functions tree),
       classes' = Some (analyze_classes tree),
       import_lists = Some (analyze_imports tree),
       potential_bugs = Some (detect_potential_bugs content),
       optimization_opportunities = Some (find_optimizations content),
       code_quality_score = Some (calculate_quality_score
         \<lparr> file_path = path,
           error = None,
           lines_of_code = Some (length (splitlines content)),
           complexity = Some (calculate_complexity tree),
           patterns = Some (extract_patterns tree content),
           functions' = Some (analyze_functions tree),
           classes' = Some (analyze_classes tree),
           import_lists = Some (analyze_imports tree),
           potential_bugs = Some (detect_potential_bugs content),
           optimization_opportunities = Some (find_optimizations content),
           code_quality_score = Some 0,
           analyzed_at = time_time env \<rparr>),
       analyzed_at = time_time env \<rparr>"
  using assms by (simp add: analyze_file_def Let_def)

lemma formula_ignores_score:
  "formula_of_result d (r\<lparr>code_quality_score := q\<rparr>) = formula_of_result d r"
  by (simp add: formula_of_result_def)

lemma analyze_file_score:
  assumes "open_read env path = Inr content" and "ast_parse env content = Inr tree"
  shows "code_quality_score (analyze_file env path) =
         Some (formula_of_result has_nonempty_docstring (analyze_file env path))"
  unfolding analyze_file_success [OF assms] calculate_quality_score_formula
  by (simp add: formula_of_result_def)

lemma analyze_file_is_success:
  assumes "open_read env path = Inr content" and "ast_parse env content = Inr tree"
  shows "is_success (analyze_file env path)"
  unfolding analyze_file_success [OF assms] by (simp add: is_success_def)

lemma doc_env: "open_read (example_env a t) ''doc.py'' = Inr doc_text"
  "ast_parse (example_env a t) doc_text = Inr (doc_tree a)"
  by (simp_all add: example_env_def example_read_def example_parse_def doc_text_def)

lemma nodoc_env: "open_read (example_env a t) ''nodoc.py'' = Inr nodoc_text"
  "ast_parse (example_env a t) nodoc_text = Inr (nodoc_tree a)"
  by (simp_all add: example_env_def example_read_def example_parse_def nodoc_text_def
      doc_text_def)


lemma nodoc_fields:
  "potential_bugs nodoc_result = Some (detect_potential_bugs nodoc_text)"
  "complexity nodoc_result = Some (calculate_complexity (nodoc_tree 100))"
  "functions' nodoc_result = Some (analyze_functions (nodoc_tree 100))"
  by (simp_all add: nodoc_result_def analyze_file_success [OF nodoc_env])


lemma nodoc_formula:
  "unclamped_formula has_nonempty_docstring (detect_potential_bugs nodoc_text)
     (dict_get (calculate_complexity (nodoc_tree 100)) Max_function_complexity 0)
     (analyze_functions (nodoc_tree 100)) = 98"
  by code_simp

lemma nodoc_formula_has_docstring:
  "unclamped_formula has_docstring (detect_potential_bugs nodoc_text)
     (dict_get (calculate_complexity (nodoc_tree 100)) Max_function_complexity 0)
     (analyze_functions (nodoc_tree 100)) = 108"
  by code_simp


lemma nodoc_score: "code_quality_score nodoc_result = Some 98"
  using analyze_file_score [OF nodoc_env, of 100 5]
  by (simp add: nodoc_result_def [symmetric] formula_of_result_def score_formula_def
      nodoc_fields get_or_def nodoc_formula clamp_def)

text \<open>
  C1 (as amended): for every successfully parsed input, the quality score is the formula
  of the specification applied to the diagnostics, the maximal function complexity and
  the function list of the same result, where a function counts as documented when its
  docstring is a non-empty text.
\<close>

theorem quality_score_formula:
  assumes "open_read env path = Inr content" and "ast_parse env content = Inr tree"
  shows "is_success (analyze_file env path)
    \<and> code_quality_score (analyze_file env path) =
        Some (formula_of_result has_nonempty_docstring (analyze_file env path))"
  using analyze_file_is_success [OF assms] analyze_file_score [OF assms] by simp

theorem quality_score_formula_witness:
  "open_read (example_env 100 5) ''nodoc.py'' = Inr nodoc_text
   \<and> ast_parse (example_env 100 5) nodoc_text = Inr (nodoc_tree 100)
   \<and> code_quality_score nodoc_result = Some 98
   \<and> formula_of_result has_nonempty_docstring nodoc_result = 98"
  using quality_score_formula [OF nodoc_env, of 100 5] nodoc_env [of 100 5] nodoc_score
  by (simp add: nodoc_result_def)

theorem quality_score_docstring_counterexample:
  "is_success nodoc_result
   \<and> code_quality_score nodoc_result = Some 98
   \<and> formula_of_result has_docstring nodoc_result = 100
   \<and> code_quality_score nodoc_result \<noteq> Some (formula_of_result has_docstring nodoc_result)"
proof -
  have s: "is_success nodoc_result"
    unfolding nodoc_result_def by (rule analyze_file_is_success [OF nodoc_env])
  have f: "formula_of_result has_docstring nodoc_result = 100"
    by (simp add: formula_of_result_def score_formula_def nodoc_fields get_or_def
        nodoc_formula_has_docstring clamp_def)
  show ?thesis using s f nodoc_score by simp
qed

subsection \<open>The two variants of the result\<close>

text \<open>
  C2: for every input that is read and parsed successfully, the analysis is the success
  variant and its quality score lies between 0 and 100.
\<close>

theorem quality_score_in_range:
  assumes "open_read env path = Inr content" and "ast_parse env content = Inr tree"
  shows "is_success (analyze_file env path)
    \<and> (\<exists>q. code_quality_score (analyze_file env path) = Some q \<and> 0 \<le> q \<and> q \<le> 100)"
  using analyze_file_is_success [OF assms] calculate_quality_score_range
  unfolding analyze_file_success [OF assms] by simp

theorem quality_score_in_range_witness:
  "open_read (example_env 100 5) ''doc.py'' = Inr doc_text
   \<and> ast_parse (example_env 100 5) doc_text = Inr (doc_tree 100)
   \<and> is_success doc_result
   \<and> (\<exists>q. code_quality_score doc_result = Some q \<and> 0 \<le> q \<and> q \<le> 100)"
  using quality_score_in_range [OF doc_env, of 100 5] doc_env [of 100 5]
  by (simp add: doc_result_def)

text \<open>
  C3: when the file cannot be read, or its content does not parse, the analysis is the
  failure variant: the path, the message of the error and the time stamp, and none of
  the analysis keys. Every analysis is exactly one of the two variants.
\<close>

theorem failure_variant:
  "(\<forall>e. open_read env path = Inl e \<longrightarrow>
        is_failure (analyze_file env path) \<and> file_path (analyze_file env path) = path
        \<and> error (analyze_file env path) = Some (str_exn e)
        \<and> analyzed_at (analyze_file env path) = time_time env)
   \<and> (\<forall>content e. open_read env path = Inr content \<and> ast_parse env content = Inl e \<longrightarrow>
        is_failure (analyze_file env path) \<and> file_path (analyze_file env path) = path
        \<and> error (analyze_file env path) = Some (str_exn e)
        \<and> analyzed_at (analyze_file env path) = time_time env)
   \<and> (is_failure (analyze_file env path) \<longleftrightarrow> \<not> is_success (analyze_file env path))"
proof (intro conjI allI impI)
  fix e assume "open_read env path = Inl e"
  then have r: "analyze_file env path = error_result env path e"
    by (simp add: analyze_file_def)
  show "is_failure (analyze_file env path)" "file_path (analyze_file env path) = path"
    "error (analyze_file env path) = Some (str_exn e)"
    "analyzed_at (analyze_file env path) = time_time env"
    unfolding r by (simp_all add: error_result_def is_failure_def)
next
  fix content e assume "open_read env path = Inr content \<and> ast_parse env content = Inl e"
  then have r: "analyze_file env path = error_result env path e"
    by (simp add: analyze_file_def)
  show "is_failure (analyze_file env path)" "file_path (analyze_file env path) = path"
    "error (analyze_file env path) = Some (str_exn e)"
    "analyzed_at (analyze_file env path) = time_time env"
    unfolding r by (simp_all add: error_result_def is_failure_def)
next
  show "is_failure (analyze_file env path) \<longleftrightarrow> \<not> is_success (analyze_file env path)"
  proof (cases "open_read env path")
    case (Inl e)
    then have "analyze_file env path = error_result env path e"
      by (simp add: analyze_file_def)
    then show ?thesis by (simp add: error_result_def is_failure_def is_success_def)
  next
    case (Inr content)
    show ?thesis
    proof (cases "ast_parse env content")
      case (Inl e)
      with Inr have "analyze_file env path = error_result env path e"
        by (simp add: analyze_file_def)
      then show ?thesis by (simp add: error_result_def is_failure_def is_success_def)
    next
      case r: (Inr tree)
      show ?thesis unfolding analyze_file_success [OF Inr r]
        by (simp add: is_failure_def is_success_def)
    qed
  qed
qed

theorem failure_variant_witness:
  "open_read (example_env 100 5) ''missing.py'' = Inl (Exn ''FileNotFoundError'' ''No such file or directory'')
   \<and> is_failure (analyze_file (example_env 100 5) ''missing.py'')
   \<and> error (analyze_file (example_env 100 5) ''missing.py'') = Some ''No such file or directory''
   \<and> open_read (example_env 100 5) ''broken.py'' = Inr ''(''
   \<and> ast_parse (example_env 100 5) ''('' = Inl syntax_error
   \<and> is_failure (analyze_file (example_env 100 5) ''broken.py'')
   \<and> error (analyze_file (example_env 100 5) ''broken.py'') = Some ''invalid syntax''
   \<and> \<not> is_success (analyze_file (example_env 100 5) ''broken.py'')"
proof -
  have a: "open_read (example_env 100 5) ''missing.py'' =
      Inl (Exn ''FileNotFoundError'' ''No such file or directory'')"
    by code_simp
  have b: "open_read (example_env 100 5) ''broken.py'' = Inr ''(''"
    by code_simp
  have c: "ast_parse (example_env 100 5) ''('' = Inl syntax_error"
    by code_simp
  show ?thesis
    using failure_variant [of "example_env 100 5" "''missing.py''"]
      failure_variant [of "example_env 100 5" "''broken.py''"] a b c
    by (auto simp add: syntax_error_def)
qed

subsection \<open>One more diagnostic, and the empty file\<close>











text \<open>
  C6: the analysis of an empty file, whose tree is a module without statements, is the
  success variant with no bug diagnostics, no optimization hints, no functions, a
  maximal function complexity of 0 and the quality score 100.
\<close>

theorem empty_file:
  assumes "open_read env path = Inr []" and "ast_parse env [] = Inr (Node Module l a [])"
  shows "is_success (analyze_file env path)
    \<and> potential_bugs (analyze_file env path) = Some []
    \<and> optimization_opportunities (analyze_file env path) = Some []
    \<and> functions' (analyze_file env path) = Some []
    \<and> patterns (analyze_file env path) = Some []
    \<and> dict_get (get_or (complexity (analyze_file env path)) Map.empty) Max_function_complexity 0 = 0
    \<and> code_quality_score (analyze_file env path) = Some 100"
proof -
  have w: "walk (Node Module l a []) = [Node Module l a []]"
    by (simp add: walk_def iter_child_nodes_def)
  have b: "detect_potential_bugs [] = []"
    by (simp add: detect_potential_bugs_def splitlines_def enumerate_eq_zip)
  have o: "find_optimizations [] = []"
    by (simp add: find_optimizations_def splitlines_def enumerate_eq_zip)
  have f: "analyze_functions (Node Module l a []) = []"
    by (simp add: analyze_functions_def w functions_step_def)
  have p: "extract_patterns (Node Module l a []) [] = []"
    by (simp add: extract_patterns_def w patterns_step_def)
  have c: "calculate_complexity (Node Module l a []) = Map.empty"
    by (simp add: calculate_complexity_def w complexity_step_def)
  show ?thesis
    unfolding analyze_file_success [OF assms]
    by (simp add: is_success_def b o f p c calculate_quality_score_def unclamped_score_def
        get_or_def dict_get_def)
qed

theorem empty_file_witness:
  "open_read (example_env 100 5) ''empty.py'' = Inr []
   \<and> ast_parse (example_env 100 5) [] = Inr (Node Module 0 100 [])
   \<and> is_success (analyze_file (example_env 100 5) ''empty.py'')
   \<and> code_quality_score (analyze_file (example_env 100 5) ''empty.py'') = Some 100"
proof -
  have a: "open_read (example_env 100 5) ''empty.py'' = Inr []" by code_simp
  have b: "ast_parse (example_env 100 5) [] = Inr (Node Module 0 100 [])" by code_simp
  show ?thesis using empty_file [OF a b] a b by simp
qed

subsection \<open>Import classification\<close>

lemma fold_proj:
  assumes "\<And>x s. p (step x s) = p s @ g x"
  shows "p (fold step xs s) = p s @ concat (map g xs)"
  by (induction xs arbitrary: s) (simp_all add: assms)

lemma concat_map_if: "concat (map (\<lambda>a. if P a then [a] else []) xs) = filter P xs"
  by (induction xs) simp_all

lemma alias_step_standard:
  "standard (alias_step a im) = standard im @ (if first_segment a \<in> stdlib_modules then [a] else [])"
  by (simp add: alias_step_def Let_def)

lemma alias_step_third_party:
  "third_party (alias_step a im) =
   third_party im @ (if first_segment a \<notin> stdlib_modules then [a] else [])"
  by (simp add: alias_step_def Let_def)

lemma alias_step_relative: "relative (alias_step a im) = relative im @ []"
  by (simp add: alias_step_def Let_def)

lemma first_segment_empty: "first_segment [] = []"
  by (simp add: first_segment_def)

lemma module_segment:
  "(if truthy m then first_segment (or_empty m) else []) = first_segment (or_empty m)"
  by (cases m) (simp_all add: truthy_def or_empty_def first_segment_empty)

lemma imports_step_standard:
  "standard (imports_step n im) = standard im @ standard_of (kind n)"
proof (cases "kind n")
  case (Import names)
  then show ?thesis
    by (simp add: imports_step_def fold_proj [where p = standard, OF alias_step_standard]
        concat_map_if)
next
  case (ImportFrom m level)
  then show ?thesis by (simp add: imports_step_def Let_def module_segment)
qed (simp_all add: imports_step_def)

lemma imports_step_third_party:
  "third_party (imports_step n im) = third_party im @ third_party_of (kind n)"
proof (cases "kind n")
  case (Import names)
  then show ?thesis
    by (simp add: imports_step_def fold_proj [where p = third_party, OF alias_step_third_party]
        concat_map_if)
next
  case (ImportFrom m level)
  then show ?thesis by (simp add: imports_step_def Let_def module_segment)
qed (simp_all add: imports_step_def)

lemma imports_step_relative:
  "relative (imports_step n im) = relative im @ relative_of single_dot (kind n)"
proof (cases "kind n")
  case (Import names)
  then show ?thesis
    by (simp add: imports_step_def fold_proj [where p = relative, OF alias_step_relative])
next
  case (ImportFrom m level)
  then show ?thesis by (simp add: imports_step_def Let_def single_dot_def)
qed (simp_all add: imports_step_def)

text \<open>
  C7 (as amended): every from-import with a nonzero relative level goes to the relative
  list, whatever its module name, rendered as the module name behind one dot, or as
  one dot when the module name is empty, whatever the level; every plain import goes
  to the standard or the third-party list by its first dotted segment and the fixed
  set of standard-library names, and so does a from-import of level zero by the first
  segment of its module.
\<close>

theorem import_classification:
  "relative (analyze_imports t) = concat (map (\<lambda>n. relative_of single_dot (kind n)) (walk t))
   \<and> standard (analyze_imports t) = concat (map (\<lambda>n. standard_of (kind n)) (walk t))
   \<and> third_party (analyze_imports t) = concat (map (\<lambda>n. third_party_of (kind n)) (walk t))"
  unfolding analyze_imports_def
  by (simp add: fold_proj [where p = relative, OF imports_step_relative]
      fold_proj [where p = standard, OF imports_step_standard]
      fold_proj [where p = third_party, OF imports_step_third_party])

theorem import_classification_witness:
  "relative (analyze_imports (rel_tree 100)) = [''.pkg'', ''.'']
   \<and> standard (analyze_imports (rel_tree 100)) = [''os.path'']
   \<and> third_party (analyze_imports (rel_tree 100)) = [''numpy'']"
proof -
  have a: "concat (map (\<lambda>n. relative_of single_dot (kind n)) (walk (rel_tree 100))) = [''.pkg'', ''.'']"
    by code_simp
  have b: "concat (map (\<lambda>n. standard_of (kind n)) (walk (rel_tree 100))) = [''os.path'']"
    by code_simp
  have c: "concat (map (\<lambda>n. third_party_of (kind n)) (walk (rel_tree 100))) = [''numpy'']"
    by code_simp
  show ?thesis using import_classification [of "rel_tree 100"] a b c by simp
qed

theorem relative_dots_counterexample:
  "relative (analyze_imports (rel_tree 100)) = [''.pkg'', ''.'']
   \<and> concat (map (\<lambda>n. relative_of dots_of_level (kind n)) (walk (rel_tree 100))) = [''..pkg'', ''.'']
   \<and> relative (analyze_imports (rel_tree 100))
        \<noteq> concat (map (\<lambda>n. relative_of dots_of_level (kind n)) (walk (rel_tree 100)))"
proof -
  have a: "relative (analyze_imports (rel_tree 100)) = [''.pkg'', ''.'']" by code_simp
  have b: "concat (map (\<lambda>n. relative_of dots_of_level (kind n)) (walk (rel_tree 100)))
           = [''..pkg'', ''.'']"
    by code_simp
  show ?thesis unfolding a b by simp
qed

subsection \<open>Async function definitions\<close>

lemma count_function_defs:
  "count_nodes is_function_def t = count_nodes is_FunctionDef t + count_nodes is_AsyncFunctionDef t"
proof -
  have "length (filter (\<lambda>n. is_function_def (kind n)) ns) =
        length (filter (\<lambda>n. is_FunctionDef (kind n)) ns)
        + length (filter (\<lambda>n. is_AsyncFunctionDef (kind n)) ns)" for ns :: "node list"
  proof (induction ns)
    case Nil show ?case by simp
  next
    case (Cons n ns)
    then show ?case by (cases "kind n") (simp_all add: is_function_def_def)
  qed
  then show ?thesis by (simp add: count_nodes_def)
qed

lemma async_below_max:
  assumes "f \<in> set (subtree t)" and "is_AsyncFunctionDef (kind f)"
  shows "local_complexity f \<le> max_local_complexity t"
proof -
  have "local_complexity f \<in>
        set (0 # map local_complexity (filter (\<lambda>f. is_function_def (kind f)) (subtree t)))"
    using assms by (simp add: is_function_def_def)
  then show ?thesis unfolding max_local_complexity_def by (intro Max_ge) simp_all
qed

lemma patterns_step_append:
  "patterns_step content n ps = ps @ patterns_step content n []"
  by (cases "kind n") (simp_all add: patterns_step_def)

lemma extract_patterns_concat:
  "extract_patterns t content = concat (map (\<lambda>n. patterns_step content n []) (walk t))"
  unfolding extract_patterns_def
  using fold_proj [where p = "\<lambda>ps. ps" and step = "patterns_step content"
      and g = "\<lambda>n. patterns_step content n []", OF patterns_step_append]
  by simp

lemma functions_step_append: "functions_step n fs = fs @ functions_step n []"
  by (cases "kind n") (simp_all add: functions_step_def)

lemma analyze_functions_concat:
  "analyze_functions t = concat (map (\<lambda>n. functions_step n []) (walk t))"
  unfolding analyze_functions_def
  using fold_proj [where p = "\<lambda>fs. fs" and step = functions_step
      and g = "\<lambda>n. functions_step n []", OF functions_step_append]
  by simp

lemma function_patterns_concat:
  "function_patterns (concat pss) = concat (map function_patterns pss)"
  by (induction pss) (simp_all add: function_patterns_def)

lemma function_patterns_step:
  "function_patterns (patterns_step content n []) =
   (case kind n of FunctionDef d \<Rightarrow> [analyze_function_pattern d n content] | _ \<Rightarrow> [])"
  by (cases "kind n") (simp_all add: patterns_step_def function_patterns_def)

lemma length_concat_map:
  assumes "\<And>x. length (g x) = (if P x then 1 else 0)"
  shows "length (concat (map g xs)) = length (filter P xs)"
  by (induction xs) (simp_all add: assms)

lemma function_patterns_of_tree:
  "function_patterns (extract_patterns t content) =
   concat (map (\<lambda>n. case kind n of FunctionDef d \<Rightarrow> [analyze_function_pattern d n content]
                                   | _ \<Rightarrow> []) (walk t))"
  by (simp add: extract_patterns_concat function_patterns_concat comp_def function_patterns_step)

lemma functions_step_value:
  "functions_step n [] =
   (case kind n of
      FunctionDef d \<Rightarrow>
        [\<lparr> fi_name = fd_name d, fi_line_number = lineno n, fi_args = fd_args d,
           fi_defaults = fd_defaults d,
           fi_returns_count = length (filter (\<lambda>n. kind n = Return) (walk n)),
           fi_raises_count = length (filter (\<lambda>n. kind n = Raise) (walk n)),
           fi_docstring = fd_docstring d, fi_is_async = False,
           fi_decorators = map name_or_str (attr_nodes Decorator_list n) \<rparr>]
    | _ \<Rightarrow> [])"
  by (cases "kind n") (simp_all add: functions_step_def)

text \<open>
  C10: an async function definition is counted in the \<open>functions\<close> metric and its local
  complexity is bounded by \<open>max_function_complexity\<close>; the function patterns and the
  function details are those of the sync function definitions of the tree, one each,
  so an async definition yields neither; every function detail has \<open>is_async\<close> false.
\<close>

theorem async_functions:
  "dict_get (calculate_complexity t) Functions 0 =
     count_nodes is_FunctionDef t + count_nodes is_AsyncFunctionDef t
   \<and> (\<forall>f \<in> set (subtree t). is_AsyncFunctionDef (kind f) \<longrightarrow>
         local_complexity f \<le> dict_get (calculate_complexity t) Max_function_complexity 0)
   \<and> length (function_patterns (extract_patterns t content)) = count_nodes is_FunctionDef t
   \<and> (\<forall>p \<in> set (function_patterns (extract_patterns t content)).
         \<exists>n d. n \<in> set (subtree t) \<and> kind n = FunctionDef d
               \<and> p = analyze_function_pattern d n content)
   \<and> length (analyze_functions t) = count_nodes is_FunctionDef t
   \<and> (\<forall>f \<in> set (analyze_functions t).
         \<not> fi_is_async f
         \<and> (\<exists>n d. n \<in> set (subtree t) \<and> kind n = FunctionDef d
                  \<and> fi_name f = fd_name d \<and> fi_line_number f = lineno n))"
proof -
  have c1: "dict_get (calculate_complexity t) Functions 0 =
      count_nodes is_FunctionDef t + count_nodes is_AsyncFunctionDef t"
    by (simp add: metric_functions count_function_defs)
  have c2: "local_complexity f \<le> dict_get (calculate_complexity t) Max_function_complexity 0"
    if "f \<in> set (subtree t)" and "is_AsyncFunctionDef (kind f)" for f
    using that by (simp add: metric_max async_below_max)
  have "length (function_patterns (extract_patterns t content)) =
        length (filter (\<lambda>n. is_FunctionDef (kind n)) (walk t))"
    unfolding function_patterns_of_tree
    by (rule length_concat_map) (simp split: kind.split)
  then have c3: "length (function_patterns (extract_patterns t content)) =
      count_nodes is_FunctionDef t"
    by (simp add: count_nodes_def count_walk)
  have c4: "\<exists>n d. n \<in> set (subtree t) \<and> kind n = FunctionDef d
      \<and> p = analyze_function_pattern d n content"
    if "p \<in> set (function_patterns (extract_patterns t content))" for p
  proof -
    from that obtain n where n: "n \<in> set (walk t)"
      and p: "p \<in> set (case kind n of FunctionDef d \<Rightarrow> [analyze_function_pattern d n content]
                                      | _ \<Rightarrow> [])"
      unfolding function_patterns_of_tree by auto
    from p obtain d where "kind n = FunctionDef d" "p = analyze_function_pattern d n content"
      by (cases "kind n") simp_all
    with n show ?thesis unfolding set_walk by blast
  qed
  have "length (analyze_functions t) = length (filter (\<lambda>n. is_FunctionDef (kind n)) (walk t))"
    unfolding analyze_functions_concat
    by (rule length_concat_map) (simp add: functions_step_value split: kind.split)
  then have c5: "length (analyze_functions t) = count_nodes is_FunctionDef t"
    by (simp add: count_nodes_def count_walk)
  have c6: "\<not> fi_is_async f \<and> (\<exists>n d. n \<in> set (subtree t) \<and> kind n = FunctionDef d
      \<and> fi_name f = fd_name d \<and> fi_line_number f = lineno n)"
    if "f \<in> set (analyze_functions t)" for f
  proof -
    from that obtain n where n: "n \<in> set (walk t)" and f: "f \<in> set (functions_step n [])"
      unfolding analyze_functions_concat by auto
    from f obtain d where d: "kind n = FunctionDef d"
      by (cases "kind n") (simp_all add: functions_step_value)
    with f have "\<not> fi_is_async f" "fi_name f = fd_name d" "fi_line_number f = lineno n"
      by (simp_all add: functions_step_value)
    with n d show ?thesis unfolding set_walk by blast
  qed
  show ?thesis using c1 c2 c3 c4 c5 c6 by blast
qed

theorem async_functions_witness:
  "example_g \<in> set (subtree example_tree) \<and> is_AsyncFunctionDef (kind example_g)
   \<and> dict_get (calculate_complexity example_tree) Functions 0 = 2
   \<and> local_complexity example_g \<le> dict_get (calculate_complexity example_tree) Max_function_complexity 0
   \<and> length (function_patterns (extract_patterns example_tree [])) = 1
   \<and> map fi_name (analyze_functions example_tree) = [''f'']
   \<and> list_all (\<lambda>f. \<not> fi_is_async f) (analyze_functions example_tree)"
proof -
  have a: "example_g \<in> set (subtree example_tree)" by code_simp
  have b: "is_AsyncFunctionDef (kind example_g)" by code_simp
  have c: "count_nodes is_FunctionDef example_tree = 1" by code_simp
  have d: "count_nodes is_AsyncFunctionDef example_tree = 1" by code_simp
  have e: "map fi_name (analyze_functions example_tree) = [''f'']" by code_simp
  show ?thesis using async_functions [of example_tree "[]"] a b c d e
    by (auto simp: list_all_iff)
qed

subsection \<open>Two runs on the same text\<close>

lemma cls_env: "open_read (example_env a t) ''cls.py'' = Inr cls_text"
  "ast_parse (example_env a t) cls_text = Inr (cls_tree a)"
  by (simp_all add: example_env_def example_read_def example_parse_def cls_text_def
      doc_text_def nodoc_text_def)

lemma cls_classes:
  "classes' (analyze_file (example_env a t) ''cls.py'') = Some (analyze_classes (cls_tree a))"
  by (simp add: analyze_file_success [OF cls_env])

lemma score_cong:
  assumes "potential_bugs r = potential_bugs r'" and "complexity r = complexity r'"
    and "functions' r = functions' r'"
  shows "calculate_quality_score r = calculate_quality_score r'"
  by (simp add: calculate_quality_score_def unclamped_score_def assms)

lemma same_parse_same_result:
  assumes "open_read env1 = open_read env2" and "ast_parse env1 = ast_parse env2"
  shows "without_time (analyze_file env1 path) = without_time (analyze_file env2 path)"
proof (cases "open_read env2 path")
  case (Inl e)
  then show ?thesis using assms
    by (simp add: analyze_file_def error_result_def without_time_def)
next
  case (Inr content)
  show ?thesis
  proof (cases "ast_parse env2 content")
    case (Inl e)
    then show ?thesis using assms Inr
      by (simp add: analyze_file_def error_result_def without_time_def)
  next
    case t: (Inr tree)
    have r1: "open_read env1 path = Inr content" and t1: "ast_parse env1 content = Inr tree"
      using assms Inr t by simp_all
    show ?thesis
      unfolding analyze_file_success [OF r1 t1] analyze_file_success [OF Inr t] without_time_def
      by (simp add: score_cong)
  qed
qed

text \<open>
  C8, at the failing input: the file \<open>cls.py\<close> is analysed in two runs that read the same
  text and parse it to the same tree, the node objects lying at other addresses in the
  second run. The base classes of the class detail hold the address of the node, so the
  two results differ in a field that is not the time stamp.
\<close>

theorem node_address_in_result:
  "open_read (example_env 100 5) ''cls.py'' = open_read (example_env 200 6) ''cls.py''
   \<and> erase_addr (cls_tree 100) = erase_addr (cls_tree 200)
   \<and> map ci_base_classes (analyze_classes (cls_tree 100)) = [[''<ast.Attribute object at 0x66>'']]
   \<and> map ci_base_classes (analyze_classes (cls_tree 200)) = [[''<ast.Attribute object at 0xca>'']]
   \<and> without_time (analyze_file (example_env 100 5) ''cls.py'')
        \<noteq> without_time (analyze_file (example_env 200 6) ''cls.py'')"
proof -
  have r: "open_read (example_env 100 5) ''cls.py'' = open_read (example_env 200 6) ''cls.py''"
    by (simp add: example_env_def)
  have e: "erase_addr (cls_tree 100) = erase_addr (cls_tree 200)" by code_simp
  have a: "map ci_base_classes (analyze_classes (cls_tree 100)) =
      [[''<ast.Attribute object at 0x66>'']]"
    by code_simp
  have b: "map ci_base_classes (analyze_classes (cls_tree 200)) =
      [[''<ast.Attribute object at 0xca>'']]"
    by code_simp
  have "analyze_classes (cls_tree 100) \<noteq> analyze_classes (cls_tree 200)"
  proof
    assume "analyze_classes (cls_tree 100) = analyze_classes (cls_tree 200)"
    then have "map ci_base_classes (analyze_classes (cls_tree 100)) =
               map ci_base_classes (analyze_classes (cls_tree 200))" by simp
    then show False unfolding a b by simp
  qed
  then have "classes' (analyze_file (example_env 100 5) ''cls.py'')
      \<noteq> classes' (analyze_file (example_env 200 6) ''cls.py'')"
    by (simp add: cls_classes)
  then have d: "without_time (analyze_file (example_env 100 5) ''cls.py'')
      \<noteq> without_time (analyze_file (example_env 200 6) ''cls.py'')"
    by (auto simp: without_time_def dest: arg_cong [where f = classes'])
  show ?thesis using r e a b d by simp
qed

end
